theory Spec2Isabelle
  imports Complex_Main
begin

section \<open>Loss and likelihood utilities of CNPP-SAHP (utils.py)\<close>

text \<open>
  The module is a handful of tensor routines. Tensors are modelled as PyTorch stores
  them when contiguous: a shape and the entries in row-major order. Float tensors hold
  \<open>real\<close> entries (no rounding, no NaN, no infinity). Long tensors hold the values of
  their signed 64-bit entries as \<open>int\<close>; arithmetic on them wraps around (\<open>wrap64\<close>).
  Exceptions are values of the type \<open>error\<close>.
\<close>

subsection \<open>Errors\<close>

datatype error = AssertionError | IndexError | RuntimeError | Unsupported

definition bindE :: "error + 'a \<Rightarrow> ('a \<Rightarrow> error + 'b) \<Rightarrow> error + 'b" where
  "bindE m f = (case m of Inl e \<Rightarrow> Inl e | Inr v \<Rightarrow> f v)"

subsection \<open>Tensors\<close>

record 'a tensor =
  shape :: "nat list"
  data :: "'a list"

definition well_formed :: "'a tensor \<Rightarrow> bool" where
  "well_formed t \<longleftrightarrow> length (data t) = prod_list (shape t)"

text \<open>Row-major position of a multi-index, and the multi-indices of a shape in that order.\<close>

fun offset :: "nat list \<Rightarrow> nat list \<Rightarrow> nat" where
  "offset (n # ns) (i # js) = i * prod_list ns + offset ns js"
| "offset _ _ = 0"

fun indices :: "nat list \<Rightarrow> nat list list" where
  "indices [] = [[]]"
| "indices (n # ns) = concat (map (\<lambda>i. map ((#) i) (indices ns)) [0..<n])"

definition valid :: "nat list \<Rightarrow> nat list \<Rightarrow> bool" where
  "valid sh idx \<longleftrightarrow> list_all2 (<) idx sh"

definition entry :: "'a tensor \<Rightarrow> nat list \<Rightarrow> 'a" where
  "entry t idx = data t ! offset (shape t) idx"

definition tabulate :: "nat list \<Rightarrow> (nat list \<Rightarrow> 'a) \<Rightarrow> 'a tensor" where
  "tabulate sh f = \<lparr>shape = sh, data = map f (indices sh)\<rparr>"

text \<open>
  The range of a signed 64-bit integer, and the value that an integer result has after
  it is stored in 64 bits.
\<close>

definition int64 :: "int \<Rightarrow> bool" where
  "int64 v \<longleftrightarrow> - (2 ^ 63) \<le> v \<and> v < 2 ^ 63"

definition wrap64 :: "int \<Rightarrow> int" where
  "wrap64 v = signed_take_bit 63 v"

text \<open>An operation applied to every entry (a tensor with a Python scalar, a cast).\<close>

definition map_tensor :: "('a \<Rightarrow> 'b) \<Rightarrow> 'a tensor \<Rightarrow> 'b tensor" where
  "map_tensor f t = \<lparr>shape = shape t, data = map f (data t)\<rparr>"

text \<open>
  Broadcasting of two shapes, aligned at the trailing dimension: two sizes agree when
  they are equal or one of them is 1. \<open>bshape\<close> works on the reversed shapes.
\<close>

fun bshape :: "nat list \<Rightarrow> nat list \<Rightarrow> nat list option" where
  "bshape [] ys = Some ys"
| "bshape (x # xs) [] = Some (x # xs)"
| "bshape (x # xs) (y # ys) =
     (if x = y \<or> y = 1 then map_option ((#) x) (bshape xs ys)
      else if x = 1 then map_option ((#) y) (bshape xs ys)
      else None)"

definition broadcast_shape :: "nat list \<Rightarrow> nat list \<Rightarrow> nat list option" where
  "broadcast_shape a b = map_option rev (bshape (rev a) (rev b))"

text \<open>The index of an operand of shape \<open>sh\<close> that an index of the broadcast result reads.\<close>

fun bidx_rev :: "nat list \<Rightarrow> nat list \<Rightarrow> nat list" where
  "bidx_rev (n # ns) (i # js) = (if n = 1 then 0 else i) # bidx_rev ns js"
| "bidx_rev _ _ = []"

definition bidx :: "nat list \<Rightarrow> nat list \<Rightarrow> nat list" where
  "bidx sh idx = rev (bidx_rev (rev sh) (rev idx))"

text \<open>A binary operation on two tensors; shapes that do not broadcast raise RuntimeError.\<close>

definition binop :: "('a \<Rightarrow> 'b \<Rightarrow> 'c) \<Rightarrow> 'a tensor \<Rightarrow> 'b tensor \<Rightarrow> error + 'c tensor" where
  "binop f a b =
     (case broadcast_shape (shape a) (shape b) of
        None \<Rightarrow> Inl RuntimeError
      | Some sh \<Rightarrow>
          Inr (tabulate sh (\<lambda>idx. f (entry a (bidx (shape a) idx)) (entry b (bidx (shape b) idx)))))"

text \<open>
  \<^verbatim>\<open>t.masked_fill_(m, v)\<close>: the mask has to broadcast to the shape of \<open>t\<close>, which is
  overwritten.
\<close>

definition masked_fill :: "'a tensor \<Rightarrow> bool tensor \<Rightarrow> 'a \<Rightarrow> error + 'a tensor" where
  "masked_fill t m v =
     (if broadcast_shape (shape t) (shape m) = Some (shape t)
      then Inr (tabulate (shape t) (\<lambda>idx. if entry m (bidx (shape m) idx) then v else entry t idx))
      else Inl RuntimeError)"

text \<open>
  The slices \<^verbatim>\<open>t[:, 1:]\<close> and \<^verbatim>\<open>t[:, :-1]\<close> need two dimensions, \<^verbatim>\<open>t[:, :-1, :]\<close> needs
  three; with fewer PyTorch raises IndexError. A dimension of size 0 stays at size 0.
\<close>

fun shift_dim1 :: "nat list \<Rightarrow> nat list" where
  "shift_dim1 (i # j # r) = i # Suc j # r"
| "shift_dim1 idx = idx"

definition slice_from1 :: "'a tensor \<Rightarrow> error + 'a tensor" where
  "slice_from1 t =
     (case shape t of
        b # l # r \<Rightarrow> Inr (tabulate (b # (l - 1) # r) (\<lambda>idx. entry t (shift_dim1 idx)))
      | _ \<Rightarrow> Inl IndexError)"

definition slice_upto1 :: "'a tensor \<Rightarrow> error + 'a tensor" where
  "slice_upto1 t =
     (case shape t of
        b # l # r \<Rightarrow> Inr (tabulate (b # (l - 1) # r) (entry t))
      | _ \<Rightarrow> Inl IndexError)"

definition slice_upto1_3 :: "'a tensor \<Rightarrow> error + 'a tensor" where
  "slice_upto1_3 t =
     (case shape t of
        b # l # k # r \<Rightarrow> Inr (tabulate (b # (l - 1) # k # r) (entry t))
      | _ \<Rightarrow> Inl IndexError)"

text \<open>\<^verbatim>\<open>t.squeeze_(-1)\<close> drops a trailing dimension of size 1 and leaves the entries alone.\<close>

definition squeeze_last :: "'a tensor \<Rightarrow> 'a tensor" where
  "squeeze_last t =
     (if shape t \<noteq> [] \<and> last (shape t) = 1 then t\<lparr>shape := butlast (shape t)\<rparr> else t)"

text \<open>\<^verbatim>\<open>t.transpose(1, 2)\<close>.\<close>

fun swap12 :: "nat list \<Rightarrow> nat list" where
  "swap12 (i # j # k # r) = i # k # j # r"
| "swap12 idx = idx"

definition transpose12 :: "'a tensor \<Rightarrow> error + 'a tensor" where
  "transpose12 t =
     (case shape t of
        b # l # k # r \<Rightarrow> Inr (tabulate (b # k # l # r) (\<lambda>idx. entry t (swap12 idx)))
      | _ \<Rightarrow> Inl IndexError)"

text \<open>Reductions: \<^verbatim>\<open>torch.sum(t)\<close> and \<^verbatim>\<open>t.sum(dim=-1)\<close>.\<close>

definition sum_all :: "'a::monoid_add tensor \<Rightarrow> 'a" where
  "sum_all t = sum_list (data t)"

definition fibre :: "'a tensor \<Rightarrow> nat list \<Rightarrow> 'a list" where
  "fibre t idx = map (\<lambda>k. entry t (idx @ [k])) [0..<last (shape t)]"

definition sum_last :: "'a::monoid_add tensor \<Rightarrow> 'a tensor" where
  "sum_last t =
     (if shape t = [] then t
      else tabulate (butlast (shape t)) (\<lambda>idx. sum_list (fibre t idx)))"

text \<open>
  \<^verbatim>\<open>torch.max(t, dim=-1)[1]\<close>: the index of the first maximal value along the last
  dimension; a last dimension of size 0 raises IndexError.
\<close>

fun argmax_list :: "real list \<Rightarrow> nat" where
  "argmax_list [] = 0"
| "argmax_list [x] = 0"
| "argmax_list (x # y # ys) =
     (let k = argmax_list (y # ys) in if (y # ys) ! k > x then Suc k else 0)"

definition argmax_last :: "real tensor \<Rightarrow> error + int tensor" where
  "argmax_last t =
     (if shape t = [] then Inr \<lparr>shape = [], data = [0]\<rparr>
      else if last (shape t) = 0 then Inl IndexError
      else Inr (tabulate (butlast (shape t)) (\<lambda>idx. int (argmax_list (fibre t idx)))))"

text \<open>\<^verbatim>\<open>F.log_softmax(t, dim=-1)\<close>.\<close>

definition log_softmax :: "real tensor \<Rightarrow> real tensor" where
  "log_softmax t =
     (if shape t = [] then map_tensor (\<lambda>_. 0) t
      else tabulate (shape t)
             (\<lambda>idx. entry t idx - ln (sum_list (map exp (fibre t (butlast idx))))))"

text \<open>
  \<^verbatim>\<open>F.one_hot(t, num_classes=k)\<close>: a new last dimension of size \<open>k\<close>. PyTorch raises
  RuntimeError on a negative class value, on a class value that is not below \<open>k\<close>, and on
  an empty tensor when \<open>k\<close> is not positive; \<open>k = -1\<close> asks for the largest class value
  plus one.
\<close>

definition one_hot :: "int tensor \<Rightarrow> int \<Rightarrow> error + int tensor" where
  "one_hot t k =
     (if data t = [] then
        (if k \<le> 0 then Inl RuntimeError else Inr (tabulate (shape t @ [nat k]) (\<lambda>_. 0)))
      else if \<not> list_all (\<lambda>v. 0 \<le> v) (data t) then Inl RuntimeError
      else if k \<noteq> - 1 \<and> \<not> list_all (\<lambda>v. v < k) (data t) then Inl RuntimeError
      else
        let n = (if k = - 1 then Max (set (data t)) + 1 else k)
        in Inr (tabulate (shape t @ [nat n])
                  (\<lambda>idx. if int (last idx) = entry t (butlast idx) then 1 else 0)))"

subsection \<open>The caller's tensors\<close>

text \<open>
  Some routines overwrite an argument in place. The tensors a caller holds live in a
  store, float tensors and long tensors apart; an argument is the address of its tensor,
  so two arguments may be one and the same tensor. A tensor that a routine creates and
  overwrites before anyone else sees it is a local value.
\<close>

record store =
  floats :: "nat \<Rightarrow> real tensor"
  longs :: "nat \<Rightarrow> int tensor"

definition put_float :: "nat \<Rightarrow> real tensor \<Rightarrow> store \<Rightarrow> store" where
  "put_float a t h = h\<lparr>floats := (floats h)(a := t)\<rparr>"

definition put_long :: "nat \<Rightarrow> int tensor \<Rightarrow> store \<Rightarrow> store" where
  "put_long a t h = h\<lparr>longs := (longs h)(a := t)\<rparr>"

definition empty_store :: store where
  "empty_store =
     \<lparr>floats = (\<lambda>_. \<lparr>shape = [0], data = []\<rparr>), longs = (\<lambda>_. \<lparr>shape = [0], data = []\<rparr>)\<rparr>"

subsection \<open>softplus\<close>

text \<open>
  \<^verbatim>\<open>
  def softplus(x, beta):
      temp = beta * x
      temp[temp > 20] = 20
      return 1.0 / beta * torch.log(1 + torch.exp(temp))
  \<close>
  The product is a new tensor, so the assignment under the mask touches no argument.
  Entries are real numbers: where \<open>beta\<close> is 0 the floating-point quotient \<^verbatim>\<open>1.0 / beta\<close> is
  infinite, which no real number renders (\<open>1 / 0\<close> is 0 in HOL), so the entries of the
  result are described for a positive \<open>beta\<close> only.
\<close>

definition softplus_value :: "real tensor \<Rightarrow> real tensor \<Rightarrow> error + real tensor" where
  "softplus_value x beta =
     bindE (binop (*) beta x) (\<lambda>temp.
       let temp = map_tensor (\<lambda>v. if v > 20 then 20 else v) temp
       in binop (*) (map_tensor (\<lambda>b. 1 / b) beta) (map_tensor (\<lambda>v. ln (1 + exp v)) temp))"

definition softplus :: "store \<Rightarrow> nat \<Rightarrow> nat \<Rightarrow> (error + real tensor) \<times> store" where
  "softplus h x beta = (softplus_value (floats h x) (floats h beta), h)"

subsection \<open>compute_event\<close>

text \<open>
  \<^verbatim>\<open>
  def compute_event(event, non_pad_mask):
      event += math.pow(10, -9)
      event.masked_fill_(~non_pad_mask.bool(), 1.0)
      result = torch.log(event)
      return result
  \<close>
  Both statements before the logarithm overwrite the caller's \<open>event\<close>. The mask is read
  after the addition, which matters when the two arguments are one tensor.
\<close>

definition event_epsilon :: real where
  "event_epsilon = 1 / 10 ^ 9"

definition compute_event :: "store \<Rightarrow> nat \<Rightarrow> nat \<Rightarrow> (error + real tensor) \<times> store" where
  "compute_event h event non_pad_mask =
     (let h1 = put_float event (map_tensor (\<lambda>v. v + event_epsilon) (floats h event)) h
      in case masked_fill (floats h1 event)
                (map_tensor (\<lambda>m. \<not> (m \<noteq> 0)) (floats h1 non_pad_mask)) 1 of
           Inl e \<Rightarrow> (Inl e, h1)
         | Inr filled \<Rightarrow>
             let h2 = put_float event filled h1
             in (Inr (map_tensor ln (floats h2 event)), h2))"

text \<open>The same call on two tensors that are not one another's alias, as values.\<close>

definition compute_event_on ::
  "real tensor \<Rightarrow> real tensor \<Rightarrow> (error + real tensor) \<times> real tensor" where
  "compute_event_on event non_pad_mask =
     (let event = map_tensor (\<lambda>v. v + event_epsilon) event
      in case masked_fill event (map_tensor (\<lambda>m. \<not> (m \<noteq> 0)) non_pad_mask) 1 of
           Inl e \<Rightarrow> (Inl e, event)
         | Inr filled \<Rightarrow> (Inr (map_tensor ln filled), filled))"

subsection \<open>compute_integral_biased\<close>

text \<open>
  \<^verbatim>\<open>
  def compute_integral_biased(all_lambda, time, non_pad_mask):
      diff_time = (time[:, 1:] - time[:, :-1]) * non_pad_mask[:, 1:]
      diff_lambda = (all_lambda[:, 1:] + all_lambda[:, :-1]) * non_pad_mask[:, 1:]
      biased_integral = diff_lambda * diff_time
      result = 0.5 * biased_integral
      return result
  \<close>
\<close>

definition compute_integral_biased_value ::
  "real tensor \<Rightarrow> real tensor \<Rightarrow> real tensor \<Rightarrow> error + real tensor" where
  "compute_integral_biased_value all_lambda time non_pad_mask =
     bindE (slice_from1 time) (\<lambda>t1.
     bindE (slice_upto1 time) (\<lambda>t0.
     bindE (binop (-) t1 t0) (\<lambda>gap.
     bindE (slice_from1 non_pad_mask) (\<lambda>m1.
     bindE (binop (*) gap m1) (\<lambda>diff_time.
     bindE (slice_from1 all_lambda) (\<lambda>l1.
     bindE (slice_upto1 all_lambda) (\<lambda>l0.
     bindE (binop (+) l1 l0) (\<lambda>lsum.
     bindE (slice_from1 non_pad_mask) (\<lambda>m1'.
     bindE (binop (*) lsum m1') (\<lambda>diff_lambda.
     bindE (binop (*) diff_lambda diff_time) (\<lambda>biased_integral.
     Inr (map_tensor (\<lambda>v. 0.5 * v) biased_integral))))))))))))"

definition compute_integral_biased ::
  "store \<Rightarrow> nat \<Rightarrow> nat \<Rightarrow> nat \<Rightarrow> (error + real tensor) \<times> store" where
  "compute_integral_biased h all_lambda time non_pad_mask =
     (compute_integral_biased_value (floats h all_lambda) (floats h time)
        (floats h non_pad_mask), h)"

subsection \<open>time_loss\<close>

text \<open>
  \<^verbatim>\<open>
  def time_loss(prediction, event_time):
      prediction.squeeze_(-1)
      true = event_time[:, 1:] - event_time[:, :-1]
      prediction = prediction[:, :-1]
      diff = prediction - true
      se = torch.sum(diff * diff)
      return se
  \<close>
  \<^verbatim>\<open>squeeze_\<close> reshapes the caller's tensor; the later assignment only rebinds the name.
\<close>

definition time_loss :: "store \<Rightarrow> nat \<Rightarrow> nat \<Rightarrow> (error + real) \<times> store" where
  "time_loss h prediction event_time =
     (let h1 = put_float prediction (squeeze_last (floats h prediction)) h
      in (bindE (slice_from1 (floats h1 event_time)) (\<lambda>t1.
          bindE (slice_upto1 (floats h1 event_time)) (\<lambda>t0.
          bindE (binop (-) t1 t0) (\<lambda>true.
          bindE (slice_upto1 (floats h1 prediction)) (\<lambda>prediction.
          bindE (binop (-) prediction true) (\<lambda>diff.
          bindE (binop (*) diff diff) (\<lambda>sq.
          Inr (sum_all sq))))))), h1))"

subsection \<open>LabelSmoothingLoss\<close>

text \<open>
  \<^verbatim>\<open>
  def __init__(self, label_smoothing, tgt_vocab_size, ignore_index=-100):
      assert 0.0 < label_smoothing <= 1.0
      super(LabelSmoothingLoss, self).__init__()
      self.eps = label_smoothing
      self.num_classes = tgt_vocab_size
      self.ignore_index = ignore_index
  \<close>
\<close>

record label_smoothing_loss =
  eps :: real
  num_classes :: int
  ignore_index :: int

definition LabelSmoothingLoss_init :: "real \<Rightarrow> int \<Rightarrow> int \<Rightarrow> error + label_smoothing_loss" where
  "LabelSmoothingLoss_init label_smoothing tgt_vocab_size ignore =
     (if 0 < label_smoothing \<and> label_smoothing \<le> 1
      then Inr \<lparr>eps = label_smoothing, num_classes = tgt_vocab_size, ignore_index = ignore\<rparr>
      else Inl AssertionError)"

text \<open>
  \<^verbatim>\<open>
  def forward(self, output, target):
      non_pad_mask = target.ne(self.ignore_index).float()
      target[target.eq(self.ignore_index)] = 0
      one_hot = F.one_hot(target, num_classes=self.num_classes).float()
      one_hot = one_hot * (1 - self.eps) + (1 - one_hot) * self.eps / self.num_classes
      log_prb = F.log_softmax(output, dim=-1)
      loss = -(one_hot * log_prb).sum(dim=-1)
      loss = loss * non_pad_mask
      return loss
  \<close>
  \<open>smoothed_one_hot\<close> is the value of \<open>one_hot\<close> after its second assignment, from the
  target as the first statements leave it. \<open>forward_on\<close> returns the result and the
  target after the call; \<open>forward\<close> is the call on the caller's tensors. A float tensor
  and a long tensor are never one tensor.
\<close>

definition smoothed_one_hot :: "label_smoothing_loss \<Rightarrow> int tensor \<Rightarrow> error + real tensor" where
  "smoothed_one_hot self target =
     bindE (one_hot target (num_classes self)) (\<lambda>one_hot.
       let one_hot = map_tensor real_of_int one_hot
       in Inr (map_tensor
                 (\<lambda>v. v * (1 - eps self) + (1 - v) * eps self / real_of_int (num_classes self))
                 one_hot))"

definition forward_on ::
  "label_smoothing_loss \<Rightarrow> real tensor \<Rightarrow> int tensor \<Rightarrow> (error + real tensor) \<times> int tensor" where
  "forward_on self output target =
     (let non_pad_mask = map_tensor (\<lambda>v. if v \<noteq> ignore_index self then 1 else 0) target;
          target = map_tensor (\<lambda>v. if v = ignore_index self then 0 else v) target
      in (bindE (smoothed_one_hot self target) (\<lambda>one_hot.
          bindE (binop (*) one_hot (log_softmax output)) (\<lambda>prod.
          binop (*) (map_tensor uminus (sum_last prod)) non_pad_mask)), target))"

definition forward ::
  "store \<Rightarrow> label_smoothing_loss \<Rightarrow> nat \<Rightarrow> nat \<Rightarrow> (error + real tensor) \<times> store" where
  "forward h self output target =
     (let (loss, target') = forward_on self (floats h output) (longs h target)
      in (loss, put_long target target' h))"

subsection \<open>type_loss\<close>

text \<open>
  \<^verbatim>\<open>
  def type_loss(prediction, types, loss_func):
      truth = types[:, 1:] - 1
      prediction = prediction[:, :-1, :]
      pred_type = torch.max(prediction, dim=-1)[1]
      correct_num = torch.sum(pred_type == truth)
      true_list=[]
      pred_list=[]
      for i in range(truth.shape[0]):
          pos_array = torch.nonzero(truth[i] == -1)
          if pos_array.shape[0] == 0:
              true_list.extend(list(truth[i].cpu().detach().numpy()))
              pred_list.extend(list(pred_type[i].cpu().detach().numpy()))
          else:
              true_list.extend(list(truth[i][:pos_array[0]].cpu().detach().numpy()))
              pred_list.extend(list(pred_type[i][:pos_array[0]].cpu().detach().numpy()))
      if isinstance(loss_func, LabelSmoothingLoss):
          loss = loss_func(prediction, truth)
      else:
          loss = loss_func(prediction.transpose(1, 2), truth)
      loss_r = torch.sum(loss)
      return loss_r, correct_num, true_list, pred_list
  \<close>
  Both \<open>truth\<close> and the sliced \<open>prediction\<close> are new tensors of the routine, so a
  LabelSmoothingLoss overwrites the local \<open>truth\<close> and not the caller's \<open>types\<close>; the lists
  are built before that. Any other loss is a function of the two tensors. The lists hold
  integers when \<open>truth\<close> and \<open>pred_type\<close> have two dimensions, the shapes of the data
  model; other ranks are answered with \<open>Unsupported\<close>.
\<close>

datatype loss_fn =
  LabelSmoothing label_smoothing_loss
| Other "real tensor \<Rightarrow> int tensor \<Rightarrow> error + real tensor"

definition shifted_truth :: "int tensor \<Rightarrow> error + int tensor" where
  "shifted_truth types = bindE (slice_from1 types) (\<lambda>t. Inr (map_tensor (\<lambda>v. wrap64 (v - 1)) t))"

definition predicted_type :: "real tensor \<Rightarrow> error + int tensor" where
  "predicted_type prediction = bindE (slice_upto1_3 prediction) argmax_last"

definition row_list :: "'a tensor \<Rightarrow> nat \<Rightarrow> 'a list" where
  "row_list t i = map (\<lambda>j. entry t [i, j]) [0..<shape t ! 1]"

fun trim_rows ::
  "int tensor \<Rightarrow> int tensor \<Rightarrow> nat list \<Rightarrow> int list \<times> int list \<Rightarrow> error + int list \<times> int list" where
  "trim_rows truth pred_type [] acc = Inr acc"
| "trim_rows truth pred_type (i # rest) (true_list, pred_list) =
     (if i < hd (shape pred_type) then
        let row = row_list truth i;
            pos_array = filter (\<lambda>j. row ! j = - 1) [0..<length row]
        in if length pos_array = 0 then
             trim_rows truth pred_type rest
               (true_list @ row, pred_list @ row_list pred_type i)
           else
             trim_rows truth pred_type rest
               (true_list @ take (hd pos_array) row,
                pred_list @ take (hd pos_array) (row_list pred_type i))
      else Inl IndexError)"

definition type_loss_value ::
  "real tensor \<Rightarrow> int tensor \<Rightarrow> loss_fn \<Rightarrow> error + real \<times> int \<times> int list \<times> int list" where
  "type_loss_value prediction types loss_func =
     bindE (shifted_truth types) (\<lambda>truth.
     bindE (slice_upto1_3 prediction) (\<lambda>prediction.
     bindE (argmax_last prediction) (\<lambda>pred_type.
     bindE (binop (=) pred_type truth) (\<lambda>same.
       let correct_num = sum_all (map_tensor of_bool same)
       in if length (shape truth) \<noteq> 2 \<or> length (shape pred_type) \<noteq> 2 then Inl Unsupported
          else
            bindE (trim_rows truth pred_type [0..<hd (shape truth)] ([], [])) (\<lambda>both.
            bindE (case loss_func of
                     LabelSmoothing self \<Rightarrow> fst (forward_on self prediction truth)
                   | Other f \<Rightarrow> bindE (transpose12 prediction) (\<lambda>p. f p truth)) (\<lambda>loss.
            Inr (sum_all loss, correct_num, fst both, snd both)))))))"

definition type_loss ::
  "store \<Rightarrow> nat \<Rightarrow> nat \<Rightarrow> loss_fn \<Rightarrow> (error + real \<times> int \<times> int list \<times> int list) \<times> store" where
  "type_loss h prediction types loss_func =
     (type_loss_value (floats h prediction) (longs h types) loss_func, h)"

subsection \<open>compute_integral_unbiased and log_likelihood\<close>

text \<open>
  Both routines use parts that this file does not define. They are parameters here:
  the model object (its linear layers, as functions of a tensor, and its parameters
  \<open>alpha\<close>, \<open>beta\<close> and \<open>num_types\<close>), the function \<^verbatim>\<open>get_non_pad_mask\<close> imported from
  the model's module, and the draw of \<^verbatim>\<open>torch.rand\<close>, a function of the requested shape and
  the index. Printing is left out.
\<close>

record model =
  linear_list :: "(real tensor \<Rightarrow> error + real tensor) list"
  model_alpha :: "real tensor"
  model_beta :: "real tensor"
  num_types :: "int list"

definition py_index :: "'a list \<Rightarrow> int \<Rightarrow> error + 'a" where
  "py_index xs i =
     (let n = int (length xs); j = (if i < 0 then n + i else i)
      in if 0 \<le> j \<and> j < n then Inr (xs ! nat j) else Inl IndexError)"

text \<open>\<^verbatim>\<open>t.unsqueeze(2)\<close>, \<^verbatim>\<open>t.squeeze(2)\<close>, \<^verbatim>\<open>t[:, 1:, :]\<close> and \<^verbatim>\<open>torch.sum(t, dim=2)\<close>.\<close>

definition unsqueeze2 :: "'a tensor \<Rightarrow> error + 'a tensor" where
  "unsqueeze2 t =
     (case shape t of
        b # l # r \<Rightarrow> Inr (t\<lparr>shape := b # l # 1 # r\<rparr>)
      | _ \<Rightarrow> Inl IndexError)"

definition squeeze2 :: "'a tensor \<Rightarrow> error + 'a tensor" where
  "squeeze2 t =
     (case shape t of
        b # l # k # r \<Rightarrow> Inr (if k = 1 then t\<lparr>shape := b # l # r\<rparr> else t)
      | _ \<Rightarrow> Inl IndexError)"

definition slice_from1_3 :: "'a tensor \<Rightarrow> error + 'a tensor" where
  "slice_from1_3 t =
     (case shape t of
        b # l # k # r \<Rightarrow> Inr (tabulate (b # (l - 1) # k # r) (\<lambda>idx. entry t (shift_dim1 idx)))
      | _ \<Rightarrow> Inl IndexError)"

definition sum_dim2 :: "bool \<Rightarrow> 'a::monoid_add tensor \<Rightarrow> error + 'a tensor" where
  "sum_dim2 keepdim t =
     (case shape t of
        b # l # k # r \<Rightarrow>
          Inr (tabulate (b # l # (if keepdim then 1 # r else r))
                 (\<lambda>idx. sum_list
                    (map (\<lambda>c. entry t (take 2 idx @ c # drop (if keepdim then 3 else 2) idx))
                       [0..<k])))
      | _ \<Rightarrow> Inl IndexError)"

text \<open>An operation in place (\<^verbatim>\<open>a /= b\<close>): the result has to have the shape of \<open>a\<close>.\<close>

definition binop_inplace :: "('a \<Rightarrow> 'b \<Rightarrow> 'a) \<Rightarrow> 'a tensor \<Rightarrow> 'b tensor \<Rightarrow> error + 'a tensor" where
  "binop_inplace f a b =
     (if broadcast_shape (shape a) (shape b) = Some (shape a) then binop f a b
      else Inl RuntimeError)"

text \<open>
  \<^verbatim>\<open>
  def compute_integral_unbiased(model, process_idx, data, time, non_pad_mask, type_mask):
      num_samples = 100
      diff_time = (time[:, 1:] - time[:, :-1]) * non_pad_mask[:, 1:]
      temp_time = diff_time.unsqueeze(2) * \
                  torch.rand([*diff_time.size(), num_samples], device=data.device)
      temp_time /= (time[:, :-1] + 1).unsqueeze(2)
      temp_hid = model.linear_list[process_idx](data)[:, 1:, :]
      temp_hid = torch.sum(temp_hid * type_mask[:, 1:, :], dim=2, keepdim=True)
      all_lambda = softplus(temp_hid + model.alpha * temp_time, torch.abs(model.beta))
      all_lambda = torch.sum(all_lambda, dim=2) / num_samples
      unbiased_integral = all_lambda * diff_time
      return unbiased_integral
  \<close>
  The division in place overwrites \<open>temp_time\<close>, a product that the routine has just made.
\<close>

definition compute_integral_unbiased_value ::
  "(nat list \<Rightarrow> nat list \<Rightarrow> real) \<Rightarrow> model \<Rightarrow> int \<Rightarrow> real tensor \<Rightarrow> real tensor \<Rightarrow> real tensor
     \<Rightarrow> real tensor \<Rightarrow> error + real tensor" where
  "compute_integral_unbiased_value rand model process_idx data' time non_pad_mask type_mask =
     (let num_samples = 100 :: nat in
      bindE (slice_from1 time) (\<lambda>t1.
      bindE (slice_upto1 time) (\<lambda>t0.
      bindE (binop (-) t1 t0) (\<lambda>gap.
      bindE (slice_from1 non_pad_mask) (\<lambda>m1.
      bindE (binop (*) gap m1) (\<lambda>diff_time.
      bindE (unsqueeze2 diff_time) (\<lambda>dt3.
      bindE (binop (*) dt3
               (tabulate (shape diff_time @ [num_samples])
                  (rand (shape diff_time @ [num_samples])))) (\<lambda>temp_time.
      bindE (slice_upto1 time) (\<lambda>t0'.
      bindE (unsqueeze2 (map_tensor (\<lambda>v. v + 1) t0')) (\<lambda>start.
      bindE (binop_inplace (/) temp_time start) (\<lambda>temp_time.
      bindE (py_index (linear_list model) process_idx) (\<lambda>linear.
      bindE (linear data') (\<lambda>hid.
      bindE (slice_from1_3 hid) (\<lambda>temp_hid.
      bindE (slice_from1_3 type_mask) (\<lambda>tm1.
      bindE (binop (*) temp_hid tm1) (\<lambda>masked.
      bindE (sum_dim2 True masked) (\<lambda>temp_hid.
      bindE (binop (*) (model_alpha model) temp_time) (\<lambda>drift.
      bindE (binop (+) temp_hid drift) (\<lambda>x.
      bindE (softplus_value x (map_tensor abs (model_beta model))) (\<lambda>all_lambda.
      bindE (sum_dim2 False all_lambda) (\<lambda>summed.
        let all_lambda = map_tensor (\<lambda>v. v / real num_samples) summed
        in binop (*) all_lambda diff_time)))))))))))))))))))))"

definition compute_integral_unbiased ::
  "(nat list \<Rightarrow> nat list \<Rightarrow> real) \<Rightarrow> store \<Rightarrow> model \<Rightarrow> int \<Rightarrow> nat \<Rightarrow> nat \<Rightarrow> nat \<Rightarrow> nat
     \<Rightarrow> (error + real tensor) \<times> store" where
  "compute_integral_unbiased rand h model process_idx data' time non_pad_mask type_mask =
     (compute_integral_unbiased_value rand model process_idx (floats h data') (floats h time)
        (floats h non_pad_mask) (floats h type_mask), h)"

text \<open>
  \<^verbatim>\<open>
  def log_likelihood(model, process_idx, data, time, types):
      non_pad_mask = get_non_pad_mask(types).squeeze(2)
      num_types = model.num_types[process_idx]
      type_mask = torch.zeros((*types.size(), num_types)).to(data.device)
      for i in range(num_types):
          type_mask[:, :, i] = (types == i + 1).bool().to(data.device)
      all_hid = model.linear_list[process_idx](data)
      all_lambda = softplus(all_hid, torch.abs(model.beta))
      type_lambda = torch.sum(all_lambda * type_mask, dim=2)
      event_ll = compute_event(type_lambda, non_pad_mask)
      event_ll = torch.sum(event_ll, dim=-1)
      non_event_ll = compute_integral_unbiased(model, process_idx, data, time, non_pad_mask, type_mask)
      non_event_ll = torch.sum(non_event_ll, dim=-1)
      return event_ll, non_event_ll
  \<close>
  The loop fills the type mask class by class; it is modelled for \<open>types\<close> of two
  dimensions and answers \<open>Unsupported\<close> otherwise. \<open>compute_event\<close> overwrites
  \<open>type_lambda\<close>, a sum that the routine has just made and that is not the mask.
\<close>

definition fill_class :: "int tensor \<Rightarrow> nat \<Rightarrow> real tensor \<Rightarrow> real tensor" where
  "fill_class types i type_mask =
     tabulate (shape type_mask)
       (\<lambda>idx. if idx ! 2 = i then of_bool (entry types (take 2 idx) = int i + 1)
              else entry type_mask idx)"

definition log_likelihood_value ::
  "(int tensor \<Rightarrow> error + real tensor) \<Rightarrow> (nat list \<Rightarrow> nat list \<Rightarrow> real) \<Rightarrow> model \<Rightarrow> int
     \<Rightarrow> real tensor \<Rightarrow> real tensor \<Rightarrow> int tensor \<Rightarrow> error + real tensor \<times> real tensor" where
  "log_likelihood_value get_non_pad_mask rand model process_idx data' time types =
     bindE (get_non_pad_mask types) (\<lambda>mask3.
     bindE (squeeze2 mask3) (\<lambda>non_pad_mask.
     bindE (py_index (num_types model) process_idx) (\<lambda>num_types.
       if num_types < 0 then Inl RuntimeError
       else if length (shape types) \<noteq> 2 then Inl Unsupported
       else
         let type_mask = tabulate (shape types @ [nat num_types]) (\<lambda>_. 0);
             type_mask = fold (fill_class types) [0..<nat num_types] type_mask
         in
         bindE (py_index (linear_list model) process_idx) (\<lambda>linear.
         bindE (linear data') (\<lambda>all_hid.
         bindE (softplus_value all_hid (map_tensor abs (model_beta model))) (\<lambda>all_lambda.
         bindE (binop (*) all_lambda type_mask) (\<lambda>prod.
         bindE (sum_dim2 False prod) (\<lambda>type_lambda.
         bindE (fst (compute_event_on type_lambda non_pad_mask)) (\<lambda>event_ll.
           let event_ll = sum_last event_ll
           in
           bindE (compute_integral_unbiased_value rand model process_idx data' time
                    non_pad_mask type_mask) (\<lambda>non_event_ll.
             let non_event_ll = sum_last non_event_ll
             in Inr (event_ll, non_event_ll)))))))))))"

definition log_likelihood ::
  "(int tensor \<Rightarrow> error + real tensor) \<Rightarrow> (nat list \<Rightarrow> nat list \<Rightarrow> real) \<Rightarrow> store \<Rightarrow> model
     \<Rightarrow> int \<Rightarrow> nat \<Rightarrow> nat \<Rightarrow> nat \<Rightarrow> (error + real tensor \<times> real tensor) \<times> store" where
  "log_likelihood get_non_pad_mask rand h model process_idx data' time types =
     (log_likelihood_value get_non_pad_mask rand model process_idx (floats h data')
        (floats h time) (longs h types), h)"

subsection \<open>Inputs used by the examples\<close>

definition softplus_store :: store where
  "softplus_store =
     put_float 0 \<lparr>shape = [1, 2], data = [- 1, 30]\<rparr>
       (put_float 1 \<lparr>shape = [], data = [2]\<rparr> empty_store)"

definition event_store :: store where
  "event_store =
     put_float 0 \<lparr>shape = [1, 3], data = [2, 5, - 7]\<rparr>
       (put_float 1 \<lparr>shape = [1, 3], data = [1, 1, 0]\<rparr> empty_store)"

definition integral_store :: store where
  "integral_store =
     put_float 0 \<lparr>shape = [1, 3], data = [2, 4, 6]\<rparr>
       (put_float 1 \<lparr>shape = [1, 3], data = [0, 1, 3]\<rparr>
         (put_float 2 \<lparr>shape = [1, 3], data = [1, 1, 0]\<rparr> empty_store))"

definition time_store :: store where
  "time_store =
     put_float 0 \<lparr>shape = [1, 3, 1], data = [1, 2, 9]\<rparr>
       (put_float 1 \<lparr>shape = [1, 3], data = [0, 1, 3]\<rparr> empty_store)"

definition smoothing_example :: label_smoothing_loss where
  "smoothing_example = \<lparr>eps = 1 / 2, num_classes = 2, ignore_index = - 1\<rparr>"

definition target_example :: "int tensor" where
  "target_example = \<lparr>shape = [1], data = [0]\<rparr>"

definition forward_store :: store where
  "forward_store =
     put_float 0 \<lparr>shape = [1, 2, 2], data = [1, 2, 3, 1]\<rparr>
       (put_long 0 \<lparr>shape = [1, 2], data = [1, - 1]\<rparr> empty_store)"

definition type_store :: store where
  "type_store =
     put_float 0 \<lparr>shape = [1, 3, 2], data = [1, 2, 3, 1, 0, 0]\<rparr>
       (put_long 0 \<lparr>shape = [1, 3], data = [1, 2, 0]\<rparr> empty_store)"

text \<open>
  Stand-ins for what the module takes from outside: a model without linear layers, a loss
  function other than LabelSmoothingLoss, a padding mask in the manner of
  \<^verbatim>\<open>get_non_pad_mask\<close>, a constant in place of \<^verbatim>\<open>torch.rand\<close>, and two tensors whose
  shapes (2) and (3) do not broadcast.
\<close>

definition no_layers :: model where
  "no_layers = \<lparr>linear_list = [], model_alpha = \<lparr>shape = [], data = [0]\<rparr>,
                 model_beta = \<lparr>shape = [], data = [1]\<rparr>, num_types = []\<rparr>"

definition identity_loss :: "real tensor \<Rightarrow> int tensor \<Rightarrow> error + real tensor" where
  "identity_loss p t = Inr p"

definition example_non_pad_mask :: "int tensor \<Rightarrow> error + real tensor" where
  "example_non_pad_mask t = unsqueeze2 (map_tensor (\<lambda>v. if v \<noteq> 0 then 1 else 0) t)"

definition constant_draw :: "nat list \<Rightarrow> nat list \<Rightarrow> real" where
  "constant_draw sh idx = 1 / 2"

definition mismatch_store :: store where
  "mismatch_store =
     put_float 0 \<lparr>shape = [2], data = [1, 2]\<rparr>
       (put_float 1 \<lparr>shape = [3], data = [1, 0, 1]\<rparr> empty_store)"

section \<open>Facts about tensors\<close>

lemma bindE_Inr [simp]: "bindE (Inr v) f = f v"
  by (simp add: bindE_def)

lemma bindE_Inl [simp]: "bindE (Inl e) f = Inl e"
  by (simp add: bindE_def)

lemma wrap64_id: "int64 v \<Longrightarrow> wrap64 v = v"
  by (simp add: int64_def wrap64_def signed_take_bit_int_eq_self)

lemma int64_wrap64: "int64 (wrap64 v)"
  using signed_take_bit_int_greater_eq_minus_exp [of 63 v] signed_take_bit_int_less_exp [of 63 v]
  by (simp add: int64_def wrap64_def)

lemma wrap64_minimum: "wrap64 (- (2 ^ 63) - 1) = 2 ^ 63 - 1"
  by (simp add: wrap64_def signed_take_bit_eq_take_bit_shift take_bit_eq_mod)

lemma length_indices [simp]: "length (indices sh) = prod_list sh"
proof (induction sh)
  case Nil
  show ?case by simp
next
  case (Cons n ns)
  have "length (concat (map (\<lambda>i. map ((#) i) (indices ns)) [0..<n]))
        = sum_list (map (\<lambda>i. prod_list ns) [0..<n])"
    by (simp add: length_concat comp_def Cons.IH)
  also have "\<dots> = n * prod_list ns"
    by (simp add: sum_list_triv)
  finally show ?case by simp
qed

lemma nth_concat_uniform:
  "\<forall>xs\<in>set xss. length xs = m \<Longrightarrow> i < length xss \<Longrightarrow> j < m \<Longrightarrow>
   concat xss ! (i * m + j) = xss ! i ! j"
proof (induction xss arbitrary: i)
  case Nil
  then show ?case by simp
next
  case (Cons xs xss)
  show ?case
  proof (cases i)
    case 0
    with Cons.prems show ?thesis by (simp add: nth_append)
  next
    case (Suc k)
    with Cons.prems have "concat xss ! (k * m + j) = xss ! k ! j"
      by (intro Cons.IH) auto
    with Suc Cons.prems show ?thesis by (simp add: nth_append)
  qed
qed

lemma offset_less: "list_all2 (<) idx sh \<Longrightarrow> offset sh idx < prod_list sh"
proof (induction idx sh rule: list_all2_induct)
  case Nil
  show ?case by simp
next
  case (Cons i js n ns)
  have "i * prod_list ns + offset ns js < i * prod_list ns + prod_list ns"
    using Cons.IH by simp
  also have "\<dots> = Suc i * prod_list ns" by simp
  also have "\<dots> \<le> n * prod_list ns"
    using Cons.hyps(1) by (intro mult_le_mono1) simp
  finally show ?case by simp
qed

lemma nth_indices: "list_all2 (<) idx sh \<Longrightarrow> indices sh ! offset sh idx = idx"
proof (induction idx sh rule: list_all2_induct)
  case Nil
  show ?case by simp
next
  case (Cons i js n ns)
  let ?xss = "map (\<lambda>i. map ((#) i) (indices ns)) [0..<n]"
  have "concat ?xss ! (i * prod_list ns + offset ns js) = ?xss ! i ! offset ns js"
    using Cons.hyps offset_less [OF Cons.hyps(2)]
    by (intro nth_concat_uniform) auto
  also have "\<dots> = i # indices ns ! offset ns js"
    using Cons.hyps offset_less [OF Cons.hyps(2)] by simp
  finally show ?case using Cons.IH by simp
qed

lemma set_indices: "set (indices sh) = {idx. list_all2 (<) idx sh}"
proof (induction sh)
  case Nil
  show ?case by auto
next
  case (Cons n ns)
  show ?case
  proof (rule set_eqI)
    fix idx
    show "idx \<in> set (indices (n # ns)) \<longleftrightarrow> idx \<in> {idx. list_all2 (<) idx (n # ns)}"
      using Cons.IH by (cases idx) (auto simp: list_all2_Cons2)
  qed
qed

lemma distinct_concat_cons:
  "distinct xs \<Longrightarrow> distinct ys \<Longrightarrow> distinct (concat (map (\<lambda>i. map ((#) i) ys) xs))"
proof (induction xs)
  case Nil
  show ?case by simp
next
  case (Cons x xs)
  then show ?case by (auto simp: distinct_map)
qed

lemma distinct_indices: "distinct (indices sh)"
  by (induction sh) (simp_all add: distinct_concat_cons)

lemma entry_tabulate [simp]: "valid sh idx \<Longrightarrow> entry (tabulate sh f) idx = f idx"
  by (simp add: entry_def tabulate_def valid_def offset_less nth_indices)

lemma shape_tabulate [simp]: "shape (tabulate sh f) = sh"
  by (simp add: tabulate_def)

lemma well_formed_tabulate [simp]: "well_formed (tabulate sh f)"
  by (simp add: well_formed_def tabulate_def)

lemma list_all_tabulate:
  "list_all P (data (tabulate sh f)) \<longleftrightarrow> (\<forall>idx. valid sh idx \<longrightarrow> P (f idx))"
  by (auto simp: tabulate_def list_all_iff set_indices valid_def)

lemma entry_in_data: "well_formed t \<Longrightarrow> valid (shape t) idx \<Longrightarrow> entry t idx \<in> set (data t)"
  by (simp add: well_formed_def valid_def entry_def offset_less)

lemma entry_map_tensor [simp]:
  "well_formed t \<Longrightarrow> valid (shape t) idx \<Longrightarrow> entry (map_tensor f t) idx = f (entry t idx)"
  by (simp add: well_formed_def valid_def entry_def map_tensor_def offset_less)

lemma shape_map_tensor [simp]: "shape (map_tensor f t) = shape t"
  by (simp add: map_tensor_def)

lemma well_formed_map_tensor [simp]: "well_formed (map_tensor f t) = well_formed t"
  by (simp add: map_tensor_def well_formed_def)

subsection \<open>Broadcasting\<close>

lemma bshape_same [simp]: "bshape xs xs = Some xs"
  by (induction xs) auto

lemma broadcast_shape_same [simp]: "broadcast_shape sh sh = Some sh"
  by (simp add: broadcast_shape_def)

lemma bshape_absorb: "bshape xs ys = Some zs \<Longrightarrow> bshape xs zs = Some zs"
  by (induction xs ys arbitrary: zs rule: bshape.induct) (auto split: if_splits)

lemma broadcast_shape_absorb:
  "broadcast_shape a b = Some c \<Longrightarrow> broadcast_shape a c = Some c"
  by (auto simp: broadcast_shape_def dest: bshape_absorb)

lemma bidx_rev_same: "list_all2 (<) idx sh \<Longrightarrow> bidx_rev sh idx = idx"
  by (induction idx sh rule: list_all2_induct) auto

lemma bidx_same [simp]: "valid sh idx \<Longrightarrow> bidx sh idx = idx"
  by (simp add: bidx_def valid_def bidx_rev_same)

lemma bidx_rev_valid_left:
  "bshape xs ys = Some zs \<Longrightarrow> list_all2 (<) idx zs \<Longrightarrow> list_all2 (<) (bidx_rev xs idx) xs"
proof (induction xs ys arbitrary: zs idx rule: bshape.induct)
  case (1 ys)
  then show ?case by simp
next
  case (2 x xs)
  then show ?case by (auto simp: list_all2_Cons2 bidx_rev_same)
next
  case (3 x xs y ys)
  then show ?case
    by (auto simp: list_all2_Cons2 split: if_splits)
qed

lemma bidx_valid_left:
  "broadcast_shape sa sb = Some sh \<Longrightarrow> valid sh idx \<Longrightarrow> valid sa (bidx sa idx)"
proof -
  assume b: "broadcast_shape sa sb = Some sh" and v: "valid sh idx"
  from b obtain zs where zs: "bshape (rev sa) (rev sb) = Some zs" and sh: "sh = rev zs"
    by (auto simp: broadcast_shape_def)
  from v sh have "list_all2 (<) (rev idx) zs"
    using list_all2_rev [of "(<)" idx "rev zs"] by (simp add: valid_def)
  from bidx_rev_valid_left [OF zs this]
  have "list_all2 (<) (rev (bidx_rev (rev sa) (rev idx))) (rev (rev sa))"
    by (simp only: list_all2_rev)
  then show ?thesis by (simp add: bidx_def valid_def)
qed

lemma bidx_rev_valid_right:
  "bshape xs ys = Some zs \<Longrightarrow> list_all2 (<) idx zs \<Longrightarrow> list_all2 (<) (bidx_rev ys idx) ys"
proof (induction xs ys arbitrary: zs idx rule: bshape.induct)
  case (1 ys)
  then show ?case by (simp add: bidx_rev_same)
next
  case (2 x xs)
  then show ?case by simp
next
  case (3 x xs y ys)
  then show ?case
    by (auto simp: list_all2_Cons2 split: if_splits)
qed

lemma bidx_valid_right:
  "broadcast_shape sa sb = Some sh \<Longrightarrow> valid sh idx \<Longrightarrow> valid sb (bidx sb idx)"
proof -
  assume b: "broadcast_shape sa sb = Some sh" and v: "valid sh idx"
  from b obtain zs where zs: "bshape (rev sa) (rev sb) = Some zs" and sh: "sh = rev zs"
    by (auto simp: broadcast_shape_def)
  from v sh have "list_all2 (<) (rev idx) zs"
    using list_all2_rev [of "(<)" idx "rev zs"] by (simp add: valid_def)
  from bidx_rev_valid_right [OF zs this]
  have "list_all2 (<) (rev (bidx_rev (rev sb) (rev idx))) (rev (rev sb))"
    by (simp only: list_all2_rev)
  then show ?thesis by (simp add: bidx_def valid_def)
qed

lemma binop_same_shape:
  "shape a = shape b \<Longrightarrow>
   binop f a b = Inr (tabulate (shape a) (\<lambda>idx. f (entry a idx) (entry b idx)))"
  by (simp add: binop_def tabulate_def set_indices valid_def [symmetric])

subsection \<open>Tabulated tensors and sums\<close>

lemma indices_1: "indices [m] = map (\<lambda>j. [j]) [0..<m]"
  by (simp add: concat_map_singleton)

lemma sum_list_map_concat_map:
  fixes f :: "'c \<Rightarrow> 'a::monoid_add"
  shows "sum_list (map f (concat (map g xs))) = sum_list (map (\<lambda>x. sum_list (map f (g x))) xs)"
  by (induction xs) simp_all

lemma sum_list_indices_2:
  fixes f :: "nat list \<Rightarrow> 'a::comm_monoid_add"
  shows "sum_list (map f (indices [b, m])) = (\<Sum>i<b. \<Sum>j<m. f [i, j])"
proof -
  have "sum_list (map f (indices [b, m]))
        = sum_list (map (\<lambda>i. sum_list (map f (map ((#) i) (map (\<lambda>j. [j]) [0..<m])))) [0..<b])"
    unfolding indices.simps(2) [of b "[m]"] indices_1 by (rule sum_list_map_concat_map)
  also have "\<dots> = (\<Sum>i<b. \<Sum>j<m. f [i, j])"
    by (simp add: interv_sum_list_conv_sum_set_nat atLeast0LessThan comp_def)
  finally show ?thesis .
qed

lemma tabulate_cong:
  "(\<And>idx. valid sh idx \<Longrightarrow> f idx = g idx) \<Longrightarrow> tabulate sh f = tabulate sh g"
  by (simp add: tabulate_def set_indices valid_def)

lemma binop_tabulate [simp]:
  "binop f (tabulate sh g1) (tabulate sh g2) = Inr (tabulate sh (\<lambda>idx. f (g1 idx) (g2 idx)))"
proof -
  have "tabulate sh (\<lambda>idx. f (entry (tabulate sh g1) idx) (entry (tabulate sh g2) idx))
        = tabulate sh (\<lambda>idx. f (g1 idx) (g2 idx))"
    by (rule tabulate_cong) simp
  then show ?thesis by (simp add: binop_same_shape)
qed

lemma map_tensor_tabulate [simp]:
  "map_tensor f (tabulate sh g) = tabulate sh (\<lambda>idx. f (g idx))"
  by (simp add: map_tensor_def tabulate_def)

lemma sum_all_tabulate_2:
  fixes f :: "nat list \<Rightarrow> 'a::comm_monoid_add"
  shows "sum_all (tabulate [b, m] f) = (\<Sum>i<b. \<Sum>j<m. f [i, j])"
  by (simp add: sum_all_def tabulate_def sum_list_indices_2 del: indices.simps)

subsection \<open>Facts about the routines\<close>

lemma snd_forward_on:
  "snd (forward_on self output target)
     = map_tensor (\<lambda>v. if v = ignore_index self then 0 else v) target"
  by (simp add: forward_on_def Let_def)

lemma argmax_list_less: "xs \<noteq> [] \<Longrightarrow> argmax_list xs < length xs"
  by (induction xs rule: argmax_list.induct) (auto simp: Let_def)

lemma argmax_list_greatest: "i < length xs \<Longrightarrow> xs ! i \<le> xs ! argmax_list xs"
proof (induction xs arbitrary: i rule: argmax_list.induct)
  case 1
  then show ?case by simp
next
  case (2 x)
  then show ?case by simp
next
  case (3 x y ys)
  let ?k = "argmax_list (y # ys)"
  show ?case
  proof (cases i)
    case 0
    then show ?thesis by (auto simp: Let_def)
  next
    case (Suc j)
    with "3.prems" have "(y # ys) ! j \<le> (y # ys) ! ?k"
      by (intro "3.IH") auto
    with Suc show ?thesis by (auto simp: Let_def)
  qed
qed

lemma first_hit:
  "filter (\<lambda>j. row ! j = v) [0..<length row] =
     (if length (takeWhile (\<lambda>x. x \<noteq> v) row) < length row
      then length (takeWhile (\<lambda>x. x \<noteq> v) row)
             # filter (\<lambda>j. row ! j = v) [Suc (length (takeWhile (\<lambda>x. x \<noteq> v) row))..<length row]
      else [])"
proof -
  let ?k = "length (takeWhile (\<lambda>x. x \<noteq> v) row)"
  have k: "?k \<le> length row" by (rule length_takeWhile_le)
  have before: "row ! j \<noteq> v" if "j < ?k" for j
  proof -
    have "takeWhile (\<lambda>x. x \<noteq> v) row ! j \<in> set (takeWhile (\<lambda>x. x \<noteq> v) row)"
      using that by simp
    then have "takeWhile (\<lambda>x. x \<noteq> v) row ! j \<noteq> v"
      by (auto dest: set_takeWhileD)
    then show ?thesis using that by (simp add: takeWhile_nth)
  qed
  have "[0..<length row] = [0..<?k] @ [?k..<length row]"
    using k by (metis le_add_diff_inverse upt_add_eq_append zero_le)
  then have split: "filter (\<lambda>j. row ! j = v) [0..<length row]
                    = filter (\<lambda>j. row ! j = v) [?k..<length row]"
    using before by (simp add: filter_empty_conv)
  show ?thesis
  proof (cases "?k < length row")
    case True
    then have "row ! ?k = v"
      using nth_length_takeWhile [of "\<lambda>x. x \<noteq> v" row] by simp
    with True split show ?thesis by (simp add: upt_conv_Cons)
  next
    case False
    with k split show ?thesis by simp
  qed
qed

lemma trim_rows_eq:
  assumes "\<forall>i\<in>set is. i < hd (shape pred_type)"
    and "shape pred_type ! 1 = shape truth ! 1"
  shows "trim_rows truth pred_type is (true_list, pred_list) =
     Inr (true_list @ concat (map (\<lambda>i. takeWhile (\<lambda>v. v \<noteq> - 1) (row_list truth i)) is),
          pred_list @ concat (map (\<lambda>i. take (length (takeWhile (\<lambda>v. v \<noteq> - 1) (row_list truth i)))
                                          (row_list pred_type i)) is))"
  using assms(1)
proof (induction "is" arbitrary: true_list pred_list)
  case Nil
  show ?case by simp
next
  case (Cons i rest)
  let ?row = "row_list truth i"
  let ?k = "length (takeWhile (\<lambda>v. v \<noteq> - 1) ?row)"
  have len: "length (row_list pred_type i) = length ?row"
    using assms(2) by (simp add: row_list_def)
  have i: "i < hd (shape pred_type)" and rest: "\<forall>i\<in>set rest. i < hd (shape pred_type)"
    using Cons.prems by simp_all
  show ?case
  proof (cases "?k < length ?row")
    case True
    then show ?thesis
      using i Cons.IH [OF rest] by (simp add: first_hit [of ?row] Let_def takeWhile_eq_take [symmetric])
  next
    case False
    then have full: "takeWhile (\<lambda>v. v \<noteq> - 1) ?row = ?row"
      by (metis length_takeWhile_le nat_less_le takeWhile_eq_take take_all_iff order_refl)
    have hit: "filter (\<lambda>j. ?row ! j = - 1) [0..<length ?row] = []"
      using False by (simp add: first_hit [of ?row])
    show ?thesis
      using i Cons.IH [OF rest] by (simp add: hit Let_def full len)
  qed
qed


lemma sum_all_of_bool:
  "sum_all (tabulate sh (\<lambda>idx. of_bool (P idx))) = int (card {idx. valid sh idx \<and> P idx})"
proof -
  have "sum_list (map (\<lambda>idx. of_bool (P idx)) (indices sh))
        = (\<Sum>idx\<in>set (indices sh). of_bool (P idx) :: int)"
    using distinct_indices by (rule sum_list_distinct_conv_sum_set)
  also have "\<dots> = int (card (set (indices sh) \<inter> {idx. P idx}))"
    by simp
  also have "set (indices sh) \<inter> {idx. P idx} = {idx. valid sh idx \<and> P idx}"
    by (auto simp: set_indices valid_def)
  finally show ?thesis by (simp add: sum_all_def tabulate_def)
qed

lemma valid_snoc: "valid (sh @ [k]) (idx @ [j]) \<longleftrightarrow> valid sh idx \<and> j < k"
  unfolding valid_def by (induction idx sh rule: list_induct2') auto

lemma type_loss_value_shaped:
  assumes "shape prediction = [B, L, K]" and "shape types = [B, L]" and "0 < K"
    and "M = L - 1"
  shows "\<exists>truth pred3 pred_type.
      shifted_truth types = Inr truth \<and> slice_upto1_3 prediction = Inr pred3
      \<and> predicted_type prediction = Inr pred_type
      \<and> shape truth = [B, M] \<and> shape pred_type = [B, M]
      \<and> (\<forall>idx. valid [B, M] idx \<longrightarrow>
            entry truth idx = wrap64 (entry types (shift_dim1 idx) - 1)
            \<and> entry pred_type idx
                = int (argmax_list (map (\<lambda>k. entry prediction (idx @ [k])) [0..<K])))
      \<and> type_loss_value prediction types loss_func =
          bindE (case loss_func of
                   LabelSmoothing self \<Rightarrow> fst (forward_on self pred3 truth)
                 | Other f \<Rightarrow> bindE (transpose12 pred3) (\<lambda>p. f p truth))
            (\<lambda>loss. Inr (sum_all loss,
               int (card {idx. valid [B, M] idx \<and> entry pred_type idx = entry truth idx}),
               concat (map (\<lambda>i. takeWhile (\<lambda>v. v \<noteq> - 1) (row_list truth i)) [0..<B]),
               concat (map (\<lambda>i. take (length (takeWhile (\<lambda>v. v \<noteq> - 1) (row_list truth i)))
                                     (row_list pred_type i)) [0..<B])))"
proof -
  have M: "L - Suc 0 = M"
    using assms(4) by simp
  let ?truth = "tabulate [B, M] (\<lambda>idx. wrap64 (entry types (shift_dim1 idx) - 1))"
  let ?pred3 = "tabulate [B, M, K] (entry prediction)"
  let ?pt = "tabulate [B, M] (\<lambda>idx. int (argmax_list (fibre ?pred3 idx)))"
  have tr: "shifted_truth types = Inr ?truth"
    using assms(2) by (simp add: shifted_truth_def slice_from1_def M)
  have p3: "slice_upto1_3 prediction = Inr ?pred3"
    using assms(1) by (simp add: slice_upto1_3_def M)
  have am: "argmax_last ?pred3 = Inr ?pt"
    using assms(3) by (simp add: argmax_last_def)
  have pt: "predicted_type prediction = Inr ?pt"
    unfolding predicted_type_def p3 bindE_Inr by (rule am)
  have fib: "fibre ?pred3 idx = map (\<lambda>k. entry prediction (idx @ [k])) [0..<K]"
    if "valid [B, M] idx" for idx
  proof -
    have "valid [B, M, K] (idx @ [k])" if "k < K" for k
      using valid_snoc [of "[B, M]" K idx k] that \<open>valid [B, M] idx\<close> by simp
    then show ?thesis by (simp add: fibre_def)
  qed
  have ent: "\<forall>idx. valid [B, M] idx \<longrightarrow>
            entry ?truth idx = wrap64 (entry types (shift_dim1 idx) - 1)
            \<and> entry ?pt idx = int (argmax_list (map (\<lambda>k. entry prediction (idx @ [k])) [0..<K]))"
  proof (intro allI impI)
    fix idx assume v: "valid [B, M] idx"
    from fib [OF v] v
    show "entry ?truth idx = wrap64 (entry types (shift_dim1 idx) - 1)
            \<and> entry ?pt idx = int (argmax_list (map (\<lambda>k. entry prediction (idx @ [k])) [0..<K]))"
      by simp
  qed
  have cnt: "sum_all (tabulate [B, M]
               (\<lambda>idx. of_bool (int (argmax_list (fibre ?pred3 idx))
                                 = wrap64 (entry types (shift_dim1 idx) - 1))))
             = int (card {idx. valid [B, M] idx \<and> entry ?pt idx = entry ?truth idx})"
    unfolding sum_all_of_bool by (rule arg_cong [where f = "\<lambda>S. int (card S)"]) auto
  have rows: "trim_rows ?truth ?pt [0..<B] ([], []) =
     Inr (concat (map (\<lambda>i. takeWhile (\<lambda>v. v \<noteq> - 1) (row_list ?truth i)) [0..<B]),
          concat (map (\<lambda>i. take (length (takeWhile (\<lambda>v. v \<noteq> - 1) (row_list ?truth i)))
                                (row_list ?pt i)) [0..<B]))"
    using trim_rows_eq [of "[0..<B]" ?pt ?truth "[]" "[]"] by simp
  have "type_loss_value prediction types loss_func =
          bindE (case loss_func of
                   LabelSmoothing self \<Rightarrow> fst (forward_on self ?pred3 ?truth)
                 | Other f \<Rightarrow> bindE (transpose12 ?pred3) (\<lambda>p. f p ?truth))
            (\<lambda>loss. Inr (sum_all loss,
               int (card {idx. valid [B, M] idx \<and> entry ?pt idx = entry ?truth idx}),
               concat (map (\<lambda>i. takeWhile (\<lambda>v. v \<noteq> - 1) (row_list ?truth i)) [0..<B]),
               concat (map (\<lambda>i. take (length (takeWhile (\<lambda>v. v \<noteq> - 1) (row_list ?truth i)))
                                     (row_list ?pt i)) [0..<B])))"
    unfolding type_loss_value_def tr p3 am bindE_Inr
    by (simp add: cnt rows Let_def del: trim_rows.simps)
  with tr p3 pt ent show ?thesis
    by (intro exI [of _ ?truth] exI [of _ ?pred3] exI [of _ ?pt]) simp
qed


lemma type_loss_value_no_class:
  assumes "shape prediction = [B, L, 0]" and "shape types = [B, L]"
  shows "type_loss_value prediction types loss_func = Inl IndexError"
  using assms
  by (simp add: type_loss_value_def shifted_truth_def slice_from1_def slice_upto1_3_def
      argmax_last_def)

lemma shifted_truth_example: "shifted_truth \<lparr>shape = [1, 3], data = [1, 2, 0]\<rparr> = Inr \<lparr>shape = [1, 2], data = [1, - 1]\<rparr>"
  by (simp add: shifted_truth_def slice_from1_def tabulate_def map_tensor_def entry_def
      upt_conv_Cons wrap64_id int64_def)

lemma slice_example: "slice_upto1_3 \<lparr>shape = [1, 3, 2], data = [1, 2, 3, 1, 0, 0::real]\<rparr>
   = Inr \<lparr>shape = [1, 2, 2], data = [1, 2, 3, 1]\<rparr>"
  by (simp add: slice_upto1_3_def tabulate_def entry_def upt_conv_Cons)

lemma argmax_example: "argmax_last \<lparr>shape = [1, 2, 2], data = [1, 2, 3, 1]\<rparr> = Inr \<lparr>shape = [1, 2], data = [1, 0]\<rparr>"
  by (simp add: argmax_last_def tabulate_def entry_def fibre_def upt_conv_Cons)

lemma forward_on_example: "\<exists>loss. fst (forward_on smoothing_example \<lparr>shape = [1, 2, 2], data = [1, 2, 3, 1]\<rparr>
     \<lparr>shape = [1, 2], data = [1, - 1]\<rparr>) = Inr loss"
  by (simp add: forward_on_def smoothing_example_def smoothed_one_hot_def one_hot_def map_tensor_def
     log_softmax_def sum_last_def binop_def broadcast_shape_def Let_def)

lemma type_loss_example: "\<exists>loss_r. fst (type_loss type_store 0 0 (LabelSmoothing smoothing_example))
     = Inr (loss_r, 1, [1], [1])"
proof -
  from forward_on_example obtain loss where l: "fst (forward_on smoothing_example \<lparr>shape = [1, 2, 2], data = [1, 2, 3, 1]\<rparr>
     \<lparr>shape = [1, 2], data = [1, - 1]\<rparr>) = Inr loss" by blast
  have "fst (type_loss type_store 0 0 (LabelSmoothing smoothing_example))
     = Inr (sum_all loss, 1, [1], [1])"
  proof -
    have f: "floats type_store 0 = \<lparr>shape = [1, 3, 2], data = [1, 2, 3, 1, 0, 0]\<rparr>"
      and g: "longs type_store 0 = \<lparr>shape = [1, 3], data = [1, 2, 0]\<rparr>"
      by (simp_all add: type_store_def put_float_def put_long_def)
    have same: "binop (=) \<lparr>shape = [1, 2], data = [1, 0 :: int]\<rparr> \<lparr>shape = [1, 2], data = [1, - 1]\<rparr>
                = Inr \<lparr>shape = [1, 2], data = [True, False]\<rparr>"
      by (simp add: binop_same_shape tabulate_def entry_def upt_conv_Cons)
    show ?thesis
      unfolding type_loss_def type_loss_value_def fst_conv f g shifted_truth_example slice_example argmax_example bindE_Inr same
      by (simp add: l [simplified] sum_all_def map_tensor_def row_list_def entry_def upt_conv_Cons)
  qed
  then show ?thesis by blast
qed

lemma bindE_no_assert:
  "m \<noteq> Inl AssertionError \<Longrightarrow> (\<And>v. f v \<noteq> Inl AssertionError) \<Longrightarrow>
   bindE m f \<noteq> Inl AssertionError"
  by (cases m) auto

lemma binop_no_assert [simp]: "binop f a b \<noteq> Inl AssertionError"
  by (simp add: binop_def split: option.split)

lemma slices_no_assert [simp]:
  "slice_from1 t \<noteq> Inl AssertionError"
  "slice_upto1 t \<noteq> Inl AssertionError"
  "slice_upto1_3 t \<noteq> Inl AssertionError"
  "transpose12 t \<noteq> Inl AssertionError"
  by (simp_all add: slice_from1_def slice_upto1_def slice_upto1_3_def transpose12_def
      split: list.split)

lemma masked_fill_no_assert [simp]: "masked_fill t m v \<noteq> Inl AssertionError"
  by (simp add: masked_fill_def)

lemma argmax_last_no_assert [simp]: "argmax_last t \<noteq> Inl AssertionError"
  by (simp add: argmax_last_def)

lemma one_hot_no_assert [simp]: "one_hot t k \<noteq> Inl AssertionError"
  by (simp add: one_hot_def Let_def)

lemma trim_rows_no_assert [simp]: "trim_rows truth pred_type rows acc \<noteq> Inl AssertionError"
  by (induction truth pred_type rows acc rule: trim_rows.induct) (simp_all add: Let_def)

lemma softplus_value_no_assert: "softplus_value x beta \<noteq> Inl AssertionError"
  unfolding softplus_value_def by (intro bindE_no_assert) (simp_all add: Let_def)

lemma compute_event_no_assert: "fst (compute_event h event non_pad_mask) \<noteq> Inl AssertionError"
proof -
  have "masked_fill t m v = Inl e \<Longrightarrow> e \<noteq> AssertionError" for t :: "real tensor" and m v e
    by (auto simp: masked_fill_def split: if_splits)
  then show ?thesis
    by (auto simp: compute_event_def Let_def split: sum.splits)
qed

lemma compute_integral_biased_value_no_assert:
  "compute_integral_biased_value all_lambda time non_pad_mask \<noteq> Inl AssertionError"
  unfolding compute_integral_biased_value_def by (intro bindE_no_assert) simp_all

lemma time_loss_no_assert: "fst (time_loss h prediction event_time) \<noteq> Inl AssertionError"
  unfolding time_loss_def Let_def fst_conv by (intro bindE_no_assert) simp_all

lemma forward_on_no_assert: "fst (forward_on self output target) \<noteq> Inl AssertionError"
  unfolding forward_on_def Let_def fst_conv smoothed_one_hot_def
  by (intro bindE_no_assert) simp_all

lemma type_loss_value_no_assert:
  "type_loss_value prediction types (LabelSmoothing self) \<noteq> Inl AssertionError"
proof -
  have inner: "bindE (trim_rows truth pred_type rows ([], []))
          (\<lambda>both. bindE (fst (forward_on self p truth))
             (\<lambda>loss. Inr (sum_all loss, c, both))) \<noteq> Inl AssertionError"
    for truth pred_type rows p and c :: int
    by (intro bindE_no_assert) (simp_all add: forward_on_no_assert)
  show ?thesis
    unfolding type_loss_value_def shifted_truth_def Let_def
    by (intro bindE_no_assert) (simp_all add: inner)
qed

lemma compute_event_distinct:
  assumes "event \<noteq> non_pad_mask"
  shows "compute_event h event non_pad_mask =
     (fst (compute_event_on (floats h event) (floats h non_pad_mask)),
      put_float event (snd (compute_event_on (floats h event) (floats h non_pad_mask))) h)"
  using assms
  by (auto simp: compute_event_def compute_event_on_def Let_def put_float_def
      split: sum.splits)

lemma compute_event_on_example:
  "snd (compute_event_on \<lparr>shape = [1, 3], data = [2, 5, - 7]\<rparr> \<lparr>shape = [1, 3], data = [1, 1, 0]\<rparr>)
     = \<lparr>shape = [1, 3], data = [2 + event_epsilon, 5 + event_epsilon, 1]\<rparr>"
  by (simp add: compute_event_on_def Let_def masked_fill_def map_tensor_def tabulate_def
      entry_def bidx_def upt_conv_Cons)

text \<open>
  The mass that forward gives to a target: \<open>1 - eps\<close> for the true class and \<open>eps / K\<close> for
  each of the other \<open>K - 1\<close> classes, \<open>1 - eps / K\<close> in all.
\<close>

lemma sum_list_one_hot:
  fixes a b :: real
  assumes "c < K"
  shows "sum_list (map (\<lambda>k. if k = c then a else b) [0..<K]) = a + real (K - 1) * b"
proof -
  have "sum_list (map (\<lambda>k. if k = c then a else b) [0..<K])
        = (\<Sum>k\<in>{0..<K}. if k = c then a else b)"
    by (simp add: interv_sum_list_conv_sum_set_nat)
  also have "\<dots> = a + (\<Sum>k\<in>{0..<K} - {c}. if k = c then a else b)"
    using assms by (subst sum.remove [of _ c]) simp_all
  also have "(\<Sum>k\<in>{0..<K} - {c}. if k = c then a else b) = (\<Sum>k\<in>{0..<K} - {c}. b)"
    by (rule sum.cong) auto
  also have "\<dots> = real (K - 1) * b"
    using assms by simp
  finally show ?thesis .
qed

lemma smoothed_one_hot_class_sum:
  assumes "well_formed target" and "data target \<noteq> []"
    and "num_classes self = int K"
    and "list_all (\<lambda>v. 0 \<le> v \<and> v < int K) (data target)"
  shows "\<exists>s. smoothed_one_hot self target = Inr s \<and> shape s = shape target @ [K]
           \<and> shape (sum_last s) = shape target
           \<and> (\<forall>idx. valid (shape target) idx \<longrightarrow>
                 entry (sum_last s) idx = 1 - eps self / real K)"
proof -
  let ?g = "\<lambda>v. v * (1 - eps self) + (1 - v) * eps self / real_of_int (int K)"
  let ?s = "tabulate (shape target @ [K])
              (\<lambda>idx. ?g (real_of_int (if int (last idx) = entry target (butlast idx) then 1 else 0)))"
  have K: "0 < K"
    using assms(2,4) by (cases "data target") auto
  have oh: "one_hot target (int K)
            = Inr (tabulate (shape target @ [K])
                     (\<lambda>idx. if int (last idx) = entry target (butlast idx) then 1 else 0))"
    using assms(2,4) K by (auto simp: one_hot_def list_all_iff)
  have s: "smoothed_one_hot self target = Inr ?s"
    by (simp add: smoothed_one_hot_def assms(3) oh)
  have "entry (sum_last ?s) idx = 1 - eps self / real K" if v: "valid (shape target) idx" for idx
  proof -
    let ?c = "nat (entry target idx)"
    have "entry target idx \<in> set (data target)"
      using assms(1) v by (rule entry_in_data)
    with assms(4) have c: "0 \<le> entry target idx" "?c < K"
      by (auto simp: list_all_iff)
    have vk: "valid (shape target @ [K]) (idx @ [k])" if "k < K" for k
      using v that by (simp add: valid_snoc)
    have "fibre ?s idx = map (\<lambda>k. if k = ?c then 1 - eps self else eps self / real K) [0..<K]"
      using c vk by (auto simp: fibre_def)
    then have "sum_list (fibre ?s idx) = (1 - eps self) + real (K - 1) * (eps self / real K)"
      using c(2) by (simp add: sum_list_one_hot)
    also have "\<dots> = 1 - eps self / real K"
      using K by (simp add: field_simps of_nat_diff)
    finally show ?thesis
      using v by (simp add: sum_last_def)
  qed
  then show ?thesis
    using s by (intro exI [of _ ?s]) (simp add: sum_last_def)
qed

text \<open>
  forward returns when the logits have one more dimension than the targets, of the size of
  the number of classes, and every target is a class or the ignore index; type_loss then
  returns on types between 0 and the number of classes.
\<close>

lemma forward_on_returns:
  assumes "shape output = shape target @ [K]" and "0 < K"
    and "num_classes self = int K"
    and "list_all (\<lambda>v. v = ignore_index self \<or> (0 \<le> v \<and> v < int K)) (data target)"
  shows "\<exists>loss. fst (forward_on self output target) = Inr loss \<and> shape loss = shape target"
proof -
  let ?t = "map_tensor (\<lambda>v. if v = ignore_index self then 0 else v) target"
  have rng: "list_all (\<lambda>v. 0 \<le> v \<and> v < int K) (data ?t)"
    using assms(2,4) by (auto simp: map_tensor_def list_all_iff)
  have "\<exists>oh. one_hot ?t (int K) = Inr oh \<and> shape oh = shape target @ [K]"
    using assms(2) rng by (auto simp: one_hot_def list_all_iff)
  then obtain s where s: "smoothed_one_hot self ?t = Inr s" "shape s = shape target @ [K]"
    by (auto simp: smoothed_one_hot_def assms(3))
  have ls: "shape (log_softmax output) = shape target @ [K]"
    using assms(1) by (simp add: log_softmax_def)
  obtain prod where p: "binop (*) s (log_softmax output) = Inr prod"
    "shape prod = shape target @ [K]"
    using s(2) ls by (simp add: binop_same_shape)
  have sl: "shape (map_tensor uminus (sum_last prod)) = shape target"
    using p(2) by (simp add: sum_last_def)
  obtain loss where "binop (*) (map_tensor uminus (sum_last prod))
      (map_tensor (\<lambda>v. if v \<noteq> ignore_index self then 1 else 0) target) = Inr loss"
    "shape loss = shape target"
    using sl by (simp add: binop_same_shape)
  then show ?thesis
    by (simp add: forward_on_def Let_def s p)
qed

lemma type_loss_returns:
  assumes "shape (floats h prediction) = [B, L, K]"
    and "shape (longs h types) = [B, L]" and "well_formed (longs h types)"
    and "0 < K" and "num_classes self = int K" and "ignore_index self = - 1"
    and "list_all (\<lambda>v. 0 \<le> v \<and> v \<le> int K) (data (longs h types))"
    and "int K \<le> 2 ^ 63"
  shows "\<exists>loss_r correct_num true_list pred_list.
           fst (type_loss h prediction types (LabelSmoothing self))
             = Inr (loss_r, correct_num, true_list, pred_list)"
proof -
  from type_loss_value_shaped [OF assms(1,2,4) refl, of "LabelSmoothing self"]
  obtain truth pred3 pred_type where
    tr: "shifted_truth (longs h types) = Inr truth"
    and p3: "slice_upto1_3 (floats h prediction) = Inr pred3"
    and val: "type_loss_value (floats h prediction) (longs h types) (LabelSmoothing self) =
          bindE (fst (forward_on self pred3 truth))
            (\<lambda>loss. Inr (sum_all loss,
               int (card {idx. valid [B, L - 1] idx \<and> entry pred_type idx = entry truth idx}),
               concat (map (\<lambda>i. takeWhile (\<lambda>v. v \<noteq> - 1) (row_list truth i)) [0..<B]),
               concat (map (\<lambda>i. take (length (takeWhile (\<lambda>v. v \<noteq> - 1) (row_list truth i)))
                                     (row_list pred_type i)) [0..<B])))"
    by auto
  have truth: "truth = tabulate [B, L - 1] (\<lambda>idx. wrap64 (entry (longs h types) (shift_dim1 idx) - 1))"
    using tr assms(2) by (simp add: shifted_truth_def slice_from1_def)
  have pred3: "pred3 = tabulate [B, L - 1, K] (entry (floats h prediction))"
    using p3 assms(1) by (simp add: slice_upto1_3_def)
  have "entry (longs h types) (shift_dim1 idx) \<in> set (data (longs h types))"
    if "valid [B, L - 1] idx" for idx
  proof -
    from that obtain i j where idx: "idx = [i, j]" "i < B" "j < L - 1"
      by (auto simp: valid_def list_all2_Cons2)
    then have "valid (shape (longs h types)) (shift_dim1 idx)"
      by (simp add: assms(2) valid_def)
    with assms(3) show ?thesis by (rule entry_in_data)
  qed
  then have "wrap64 (entry (longs h types) (shift_dim1 idx) - 1)
               = entry (longs h types) (shift_dim1 idx) - 1
             \<and> 0 \<le> entry (longs h types) (shift_dim1 idx)
             \<and> entry (longs h types) (shift_dim1 idx) \<le> int K"
    if v: "valid [B, L - 1] idx" for idx
  proof -
    from v have "entry (longs h types) (shift_dim1 idx) \<in> set (data (longs h types))"
      by fact
    with assms(7) have "0 \<le> entry (longs h types) (shift_dim1 idx)
                        \<and> entry (longs h types) (shift_dim1 idx) \<le> int K"
      by (simp add: list_all_iff)
    with assms(8) show ?thesis
      by (intro conjI wrap64_id) (simp_all add: int64_def)
  qed
  then have rng: "list_all (\<lambda>v. v = ignore_index self \<or> (0 \<le> v \<and> v < int K)) (data truth)"
    unfolding truth list_all_tabulate assms(6) by fastforce
  have "shape pred3 = shape truth @ [K]"
    by (simp add: truth pred3)
  from forward_on_returns [OF this assms(4,5) rng]
  obtain loss where "fst (forward_on self pred3 truth) = Inr loss" by blast
  then show ?thesis
    by (simp add: type_loss_def val)
qed

text \<open>
  What \<open>argmax_list\<close> returns is the first index of a maximal value; and the shifted truth
  of a 64-bit type is the padding value -1 exactly for the type 0.
\<close>

lemma argmax_list_first: "k < argmax_list xs \<Longrightarrow> xs ! k < xs ! argmax_list xs"
proof (induction xs arbitrary: k rule: argmax_list.induct)
  case 1
  then show ?case by simp
next
  case (2 x)
  then show ?case by simp
next
  case (3 x y ys)
  let ?a = "argmax_list (y # ys)"
  show ?case
  proof (cases "(y # ys) ! ?a > x")
    case True
    show ?thesis
    proof (cases k)
      case 0
      with True show ?thesis by (simp add: Let_def)
    next
      case (Suc j)
      with "3.prems" True have "j < ?a" by (simp add: Let_def)
      then have "(y # ys) ! j < (y # ys) ! ?a" by (rule "3.IH")
      with Suc True show ?thesis by (simp add: Let_def)
    qed
  next
    case False
    with "3.prems" show ?thesis by (simp add: Let_def)
  qed
qed

lemma argmax_tabulated:
  fixes f :: "nat \<Rightarrow> real"
  assumes "0 < K" and "c = int (argmax_list (map f [0..<K]))"
  shows "0 \<le> c \<and> c < int K \<and> c \<noteq> - 1
         \<and> (\<forall>k<K. f k \<le> f (nat c)) \<and> (\<forall>k<nat c. f k < f (nat c))"
proof -
  let ?xs = "map f [0..<K]"
  let ?a = "argmax_list ?xs"
  have a: "?a < K"
    using assms(1) argmax_list_less [of ?xs] by simp
  have "f k \<le> f ?a" if "k < K" for k
    using argmax_list_greatest [of k ?xs] that a by simp
  moreover have "f k < f ?a" if "k < ?a" for k
    using argmax_list_first [of k ?xs] that a by simp
  ultimately show ?thesis
    using a assms(2) by simp
qed

lemma wrap64_pred_padding: "int64 v \<Longrightarrow> (wrap64 (v - 1) = - 1) = (v = 0)"
proof (cases "v = - (2 ^ 63)")
  case True
  then show ?thesis
    using wrap64_minimum by simp
next
  case False
  assume "int64 v"
  with False have "int64 (v - 1)" by (simp add: int64_def)
  then show ?thesis by (simp add: wrap64_id)
qed

text \<open>What compute_event leaves in its \<open>event\<close> argument.\<close>

lemma compute_event_written:
  assumes "event \<noteq> non_pad_mask"
    and "well_formed (floats h event)" and "well_formed (floats h non_pad_mask)"
    and "broadcast_shape (shape (floats h event)) (shape (floats h non_pad_mask))
         = Some (shape (floats h event))"
    and "valid (shape (floats h event)) idx"
  shows "entry (floats (snd (compute_event h event non_pad_mask)) event) idx
         = (if entry (floats h non_pad_mask) (bidx (shape (floats h non_pad_mask)) idx) = 0
            then 1 else entry (floats h event) idx + event_epsilon)"
proof -
  let ?e = "floats h event" and ?m = "floats h non_pad_mask"
  let ?e1 = "map_tensor (\<lambda>v. v + event_epsilon) ?e"
  let ?pad = "map_tensor (\<lambda>m. \<not> (m \<noteq> 0)) ?m"
  let ?filled = "tabulate (shape ?e) (\<lambda>idx. if entry ?pad (bidx (shape ?m) idx) then 1 else entry ?e1 idx)"
  have fill: "masked_fill ?e1 ?pad 1 = Inr ?filled"
    using assms(4) by (simp add: masked_fill_def)
  have "snd (compute_event_on ?e ?m) = ?filled"
    unfolding compute_event_on_def Let_def fill by simp
  then have after: "floats (snd (compute_event h event non_pad_mask)) event = ?filled"
    unfolding compute_event_distinct [OF assms(1)] by (simp add: put_float_def)
  have vm: "valid (shape ?m) (bidx (shape ?m) idx)"
    using assms(4,5) by (rule bidx_valid_right)
  have "entry ?pad (bidx (shape ?m) idx) = (entry ?m (bidx (shape ?m) idx) = 0)"
    using assms(3) vm by simp
  moreover have "entry ?e1 idx = entry ?e idx + event_epsilon"
    using assms(2,5) by simp
  ultimately show ?thesis
    unfolding after using assms(5) by simp
qed

lemma compute_event_raised:
  assumes "broadcast_shape (shape (floats h event)) (shape (floats h non_pad_mask))
           \<noteq> Some (shape (floats h event))"
  shows "fst (compute_event h event non_pad_mask) = Inl RuntimeError
     \<and> floats (snd (compute_event h event non_pad_mask)) event
         = map_tensor (\<lambda>v. v + event_epsilon) (floats h event)"
proof -
  have ne: "event \<noteq> non_pad_mask"
    using assms by auto
  have "masked_fill (map_tensor (\<lambda>v. v + event_epsilon) (floats h event))
          (map_tensor (\<lambda>m. \<not> (m \<noteq> 0)) (floats h non_pad_mask)) 1 = Inl RuntimeError"
    using assms by (simp add: masked_fill_def)
  then show ?thesis
    unfolding compute_event_distinct [OF ne] compute_event_on_def Let_def
    by (simp add: put_float_def)
qed

lemma compute_event_written_alias:
  assumes "well_formed (floats h event)" and "valid (shape (floats h event)) idx"
  shows "entry (floats (snd (compute_event h event event)) event) idx
         = (if entry (floats h event) idx + event_epsilon = 0
            then 1 else entry (floats h event) idx + event_epsilon)"
proof -
  let ?e = "floats h event"
  let ?e1 = "map_tensor (\<lambda>v. v + event_epsilon) ?e"
  let ?pad = "map_tensor (\<lambda>m. \<not> (m \<noteq> 0)) ?e1"
  let ?filled = "tabulate (shape ?e) (\<lambda>idx. if entry ?pad (bidx (shape ?e) idx) then 1 else entry ?e1 idx)"
  have fill: "masked_fill ?e1 ?pad 1 = Inr ?filled"
    by (simp add: masked_fill_def)
  have after: "floats (snd (compute_event h event event)) event = ?filled"
    using fill by (simp add: compute_event_def Let_def put_float_def)
  have e1: "entry ?e1 idx = entry ?e idx + event_epsilon"
    using assms by simp
  have "entry ?pad idx = (entry ?e1 idx = 0)"
    using assms by simp
  then show ?thesis
    unfolding after using assms(2) e1 by simp
qed

text \<open>No routine but the constructor raises an assertion failure of its own.\<close>

lemma bindE_no_assert_from:
  "m \<noteq> Inl AssertionError \<Longrightarrow> (\<And>v. m = Inr v \<Longrightarrow> f v \<noteq> Inl AssertionError) \<Longrightarrow>
   bindE m f \<noteq> Inl AssertionError"
  by (cases m) auto

lemma py_index_no_assert [simp]: "py_index xs i \<noteq> Inl AssertionError"
  by (simp add: py_index_def Let_def)

lemma py_index_in_set: "py_index xs i = Inr v \<Longrightarrow> v \<in> set xs"
  by (auto simp: py_index_def Let_def split: if_splits)

lemma reshapes_no_assert [simp]:
  "unsqueeze2 t \<noteq> Inl AssertionError"
  "squeeze2 t \<noteq> Inl AssertionError"
  "slice_from1_3 t \<noteq> Inl AssertionError"
  by (simp_all add: unsqueeze2_def squeeze2_def slice_from1_3_def split: list.split)

lemma sum_dim2_no_assert [simp]: "sum_dim2 keepdim t \<noteq> Inl AssertionError"
  by (simp add: sum_dim2_def split: list.split)

lemma binop_inplace_no_assert [simp]: "binop_inplace f a b \<noteq> Inl AssertionError"
  by (simp add: binop_inplace_def)

lemma compute_event_on_no_assert [simp]:
  "fst (compute_event_on event non_pad_mask) \<noteq> Inl AssertionError"
proof -
  have "masked_fill t m v = Inl e \<Longrightarrow> e \<noteq> AssertionError" for t :: "real tensor" and m v e
    by (auto simp: masked_fill_def split: if_splits)
  then show ?thesis
    by (auto simp: compute_event_on_def Let_def split: sum.splits)
qed

lemma compute_integral_unbiased_value_no_assert:
  assumes "\<forall>l\<in>set (linear_list model). \<forall>d. l d \<noteq> Inl AssertionError"
  shows "compute_integral_unbiased_value rand model process_idx data' time non_pad_mask type_mask
         \<noteq> Inl AssertionError"
  unfolding compute_integral_unbiased_value_def Let_def
  using assms
  by (intro bindE_no_assert_from)
     (auto simp: softplus_value_no_assert dest: py_index_in_set)

lemma log_likelihood_value_no_assert:
  assumes "\<forall>l\<in>set (linear_list model). \<forall>d. l d \<noteq> Inl AssertionError"
    and "\<forall>t. get_non_pad_mask t \<noteq> Inl AssertionError"
  shows "log_likelihood_value get_non_pad_mask rand model process_idx data' time types
         \<noteq> Inl AssertionError"
proof -
  have tail: "bindE (py_index (linear_list model) process_idx) (\<lambda>linear.
         bindE (linear data') (\<lambda>all_hid.
         bindE (softplus_value all_hid (map_tensor abs (model_beta model))) (\<lambda>all_lambda.
         bindE (binop (*) all_lambda type_mask) (\<lambda>prod.
         bindE (sum_dim2 False prod) (\<lambda>type_lambda.
         bindE (fst (compute_event_on type_lambda non_pad_mask)) (\<lambda>event_ll.
           bindE (compute_integral_unbiased_value rand model process_idx data' time
                    non_pad_mask type_mask) (\<lambda>non_event_ll.
             Inr (sum_last event_ll, sum_last non_event_ll)))))))) \<noteq> Inl AssertionError"
    for type_mask non_pad_mask
    using assms(1)
    by (intro bindE_no_assert_from)
       (auto simp: softplus_value_no_assert compute_integral_unbiased_value_no_assert
          dest: py_index_in_set)
  show ?thesis
    unfolding log_likelihood_value_def Let_def
    using assms(2)
    by (intro bindE_no_assert_from) (simp_all add: tail)
qed

lemma type_loss_value_other_no_assert:
  assumes "\<forall>p t. f p t \<noteq> Inl AssertionError"
  shows "type_loss_value prediction types (Other f) \<noteq> Inl AssertionError"
proof -
  have inner: "bindE (trim_rows truth pred_type rows ([], []))
          (\<lambda>both. bindE (bindE (transpose12 p) (\<lambda>p. f p truth))
             (\<lambda>loss. Inr (sum_all loss, c, both))) \<noteq> Inl AssertionError"
    for truth pred_type rows p and c :: int
    using assms by (intro bindE_no_assert) simp_all
  show ?thesis
    unfolding type_loss_value_def shifted_truth_def Let_def
    by (intro bindE_no_assert) (simp_all add: inner)
qed

text \<open>softplus returns whenever the shapes broadcast, whatever \<open>beta\<close> holds.\<close>

lemma softplus_value_returns:
  assumes "broadcast_shape (shape beta) (shape x) = Some sh"
  shows "\<exists>r. softplus_value x beta = Inr r \<and> shape r = sh"
proof -
  obtain temp where t: "binop (*) beta x = Inr temp" "shape temp = sh"
    using assms by (simp add: binop_def)
  have "broadcast_shape (shape beta) sh = Some sh"
    using assms by (rule broadcast_shape_absorb)
  then show ?thesis
    unfolding softplus_value_def t bindE_Inr Let_def
    by (simp add: binop_def t(2))
qed

lemma softplus_value_raises:
  assumes "broadcast_shape (shape beta) (shape x) = None"
  shows "softplus_value x beta = Inl RuntimeError"
  using assms by (simp add: softplus_value_def binop_def)

section \<open>The claims\<close>

text \<open>
  C10. For every input \<open>x\<close> and every \<open>beta\<close> whose entries are all positive, the
  thresholded softplus (the product \<open>beta * x\<close> clamped at 20, then
  \<open>log (1 + exp temp) / beta\<close>) returns a tensor, of the broadcast shape of the two
  arguments, whose every entry is at least 0.
\<close>

theorem softplus_nonneg:
  assumes "well_formed (floats h beta)"
    and "list_all (\<lambda>b. 0 < b) (data (floats h beta))"
    and "broadcast_shape (shape (floats h beta)) (shape (floats h x)) = Some sh"
  shows "\<exists>r. fst (softplus h x beta) = Inr r \<and> shape r = sh \<and> list_all (\<lambda>v. 0 \<le> v) (data r)"
proof -
  let ?b = "floats h beta" and ?x = "floats h x"
  let ?temp = "tabulate sh (\<lambda>idx. entry ?b (bidx (shape ?b) idx) * entry ?x (bidx (shape ?x) idx))"
  let ?clamped = "map_tensor (\<lambda>v. if v > 20 then 20 else v) ?temp"
  let ?lg = "map_tensor (\<lambda>v. ln (1 + exp v)) ?clamped"
  let ?inv = "map_tensor (\<lambda>b. 1 / b) ?b"
  let ?r = "tabulate sh (\<lambda>idx. entry ?inv (bidx (shape ?b) idx) * entry ?lg (bidx sh idx))"
  have temp: "binop (*) ?b ?x = Inr ?temp"
    using assms(3) by (simp add: binop_def)
  have again: "broadcast_shape (shape ?b) sh = Some sh"
    using assms(3) by (rule broadcast_shape_absorb)
  have res: "softplus_value ?x ?b = Inr ?r"
    unfolding softplus_value_def temp using again by (simp add: binop_def)
  have "0 \<le> entry ?inv (bidx (shape ?b) idx) * entry ?lg (bidx sh idx)" if v: "valid sh idx" for idx
  proof -
    have vb: "valid (shape ?b) (bidx (shape ?b) idx)"
      using assms(3) v by (rule bidx_valid_left)
    have "entry ?b (bidx (shape ?b) idx) \<in> set (data ?b)"
      using assms(1) vb by (rule entry_in_data)
    then have pos: "0 < entry ?b (bidx (shape ?b) idx)"
      using assms(2) by (simp add: list_all_iff)
    have inv: "entry ?inv (bidx (shape ?b) idx) = 1 / entry ?b (bidx (shape ?b) idx)"
      using assms(1) vb by simp
    have "entry ?lg (bidx sh idx) = ln (1 + exp (entry ?clamped idx))"
      using v by simp
    moreover have "0 \<le> ln (1 + exp y)" for y :: real
      by (simp add: add_pos_pos less_imp_le)
    ultimately have "0 \<le> entry ?lg (bidx sh idx)" by simp
    with pos inv show ?thesis by simp
  qed
  then have "list_all (\<lambda>v. 0 \<le> v) (data ?r)"
    by (simp add: list_all_tabulate)
  with res show ?thesis by (simp add: softplus_def)
qed

theorem softplus_nonneg_witness:
  "well_formed (floats softplus_store 1) \<and> list_all ((<) 0) (data (floats softplus_store 1))
   \<and> broadcast_shape (shape (floats softplus_store 1)) (shape (floats softplus_store 0)) = Some [1, 2]
   \<and> (\<exists>r. fst (softplus softplus_store 0 1) = Inr r \<and> shape r = [1, 2]
        \<and> list_all ((\<le>) 0) (data r))"
proof -
  have a: "well_formed (floats softplus_store 1)"
    by (simp add: softplus_store_def put_float_def empty_store_def well_formed_def)
  have b: "list_all (\<lambda>b. 0 < b) (data (floats softplus_store 1))"
    by (simp add: softplus_store_def put_float_def empty_store_def)
  have c: "broadcast_shape (shape (floats softplus_store 1)) (shape (floats softplus_store 0))
           = Some [1, 2]"
    by (simp add: softplus_store_def put_float_def empty_store_def broadcast_shape_def)
  from softplus_nonneg [OF a b c] a b c show ?thesis by (simp add: list_all_iff)
qed

text \<open>
  C6. For every intensity tensor and every non-pad mask (another tensor, whose shape
  broadcasts to the intensities'), compute_event returns a tensor of the intensities'
  shape whose value at every padded position (mask 0) is exactly 0, whatever the
  intensity there: the position is overwritten with 1 before the logarithm.
\<close>

theorem compute_event_padded_zero:
  assumes "event \<noteq> non_pad_mask"
    and "well_formed (floats h event)" and "well_formed (floats h non_pad_mask)"
    and "broadcast_shape (shape (floats h event)) (shape (floats h non_pad_mask))
         = Some (shape (floats h event))"
    and "valid (shape (floats h event)) idx"
    and "entry (floats h non_pad_mask) (bidx (shape (floats h non_pad_mask)) idx) = 0"
  shows "\<exists>r. fst (compute_event h event non_pad_mask) = Inr r
             \<and> shape r = shape (floats h event) \<and> entry r idx = 0"
proof -
  let ?e = "floats h event" and ?m = "floats h non_pad_mask"
  let ?e1 = "map_tensor (\<lambda>v. v + event_epsilon) ?e"
  let ?h1 = "put_float event ?e1 h"
  let ?pad = "map_tensor (\<lambda>m. \<not> (m \<noteq> 0)) ?m"
  let ?filled = "tabulate (shape ?e) (\<lambda>idx. if entry ?pad (bidx (shape ?m) idx) then 1 else entry ?e1 idx)"
  have e1: "floats ?h1 event = ?e1" and m1: "floats ?h1 non_pad_mask = ?m"
    using assms(1) by (simp_all add: put_float_def)
  have fill: "masked_fill ?e1 ?pad 1 = Inr ?filled"
    using assms(4) by (simp add: masked_fill_def)
  have res: "fst (compute_event h event non_pad_mask) = Inr (map_tensor ln ?filled)"
    unfolding compute_event_def Let_def e1 m1 fill by (simp add: put_float_def)
  have vm: "valid (shape ?m) (bidx (shape ?m) idx)"
    using assms(4,5) by (rule bidx_valid_right)
  have "entry ?pad (bidx (shape ?m) idx)"
    using assms(3,6) vm by simp
  then have "entry ?filled idx = 1"
    using assms(5) by simp
  then have "entry (map_tensor ln ?filled) idx = 0"
    using assms(5) by simp
  with res show ?thesis by simp
qed


theorem compute_event_padded_zero_witness:
  "(0::nat) \<noteq> 1 \<and> well_formed (floats event_store 0) \<and> well_formed (floats event_store 1)
   \<and> broadcast_shape (shape (floats event_store 0)) (shape (floats event_store 1))
       = Some (shape (floats event_store 0))
   \<and> valid (shape (floats event_store 0)) [0, 2]
   \<and> entry (floats event_store 1) (bidx (shape (floats event_store 1)) [0, 2]) = 0
   \<and> (\<exists>r. fst (compute_event event_store 0 1) = Inr r
          \<and> shape r = shape (floats event_store 0) \<and> entry r [0, 2] = 0)"
proof -
  have a: "(0::nat) \<noteq> 1" by simp
  have b: "well_formed (floats event_store 0)" and c: "well_formed (floats event_store 1)"
    by (simp_all add: event_store_def put_float_def well_formed_def)
  have d: "broadcast_shape (shape (floats event_store 0)) (shape (floats event_store 1))
           = Some (shape (floats event_store 0))"
    by (simp add: event_store_def put_float_def)
  have e: "valid (shape (floats event_store 0)) [0, 2]"
    by (simp add: event_store_def put_float_def valid_def)
  have f: "entry (floats event_store 1) (bidx (shape (floats event_store 1)) [0, 2]) = 0"
    by (simp add: event_store_def put_float_def bidx_def entry_def)
  from compute_event_padded_zero [OF a b c d e f] a b c d e f show ?thesis by simp
qed

text \<open>
  C4. The claim: each entry is the time gap times the mean of the two endpoint
  intensities, masked by the later position, and scaled by 0.5. The code halves once:
  the 0.5 is what turns the sum of the two intensities into their mean. For intensities
  (2, 4, 6), times (0, 1, 3) and mask (1, 1, 0) it returns (3, 0), where the gap 1 times
  the mean 3 times the mask 1, scaled by 0.5, is 1.5.
\<close>

theorem integral_scaled_once_example:
  "fst (compute_integral_biased integral_store 0 1 2) = Inr \<lparr>shape = [1, 2], data = [3, 0]\<rparr>
   \<and> 0.5 * ((entry (floats integral_store 1) [0, 1] - entry (floats integral_store 1) [0, 0])
            * ((entry (floats integral_store 0) [0, 0] + entry (floats integral_store 0) [0, 1]) / 2)
            * entry (floats integral_store 2) [0, 1]) = 3 / 2"
  by (simp add: compute_integral_biased_def compute_integral_biased_value_def integral_store_def
      put_float_def slice_from1_def slice_upto1_def binop_def map_tensor_def tabulate_def
      entry_def bidx_def upt_conv_Cons)

text \<open>
  C4, amended. For tensors of one shape (batch, length), compute_integral_biased returns a
  tensor of shape (batch, length - 1) whose entry at (i, j) is 0.5 times the sum of the two
  intensities at j and j + 1 times the time gap \<open>time[j+1] - time[j]\<close>, each of the two
  factors multiplied by the mask at j + 1. Where the later position is valid (mask 1)
  this is the gap times the mean of the two intensities, with no further factor 0.5;
  where it is padding (mask 0) it is 0. The result is a function of the three tensors
  only: any call on the same three tensors returns the same tensor.
\<close>

theorem compute_integral_biased_entry:
  assumes "shape (floats h all_lambda) = [B, L]"
    and "shape (floats h time) = [B, L]"
    and "shape (floats h non_pad_mask) = [B, L]"
    and "i < B" and "Suc j < L"
  shows "\<exists>r. fst (compute_integral_biased h all_lambda time non_pad_mask) = Inr r
          \<and> shape r = [B, L - 1]
          \<and> entry r [i, j] =
              0.5 * (((entry (floats h all_lambda) [i, Suc j] + entry (floats h all_lambda) [i, j])
                       * entry (floats h non_pad_mask) [i, Suc j])
                     * ((entry (floats h time) [i, Suc j] - entry (floats h time) [i, j])
                         * entry (floats h non_pad_mask) [i, Suc j]))
          \<and> (entry (floats h non_pad_mask) [i, Suc j] = 1 \<longrightarrow>
               entry r [i, j] =
                 (entry (floats h time) [i, Suc j] - entry (floats h time) [i, j])
                 * ((entry (floats h all_lambda) [i, j] + entry (floats h all_lambda) [i, Suc j]) / 2))
          \<and> (entry (floats h non_pad_mask) [i, Suc j] = 0 \<longrightarrow> entry r [i, j] = 0)
          \<and> (\<forall>h'. floats h' all_lambda = floats h all_lambda \<and> floats h' time = floats h time
                  \<and> floats h' non_pad_mask = floats h non_pad_mask
                \<longrightarrow> fst (compute_integral_biased h' all_lambda time non_pad_mask) = Inr r)"
proof -
  let ?l = "floats h all_lambda" and ?t = "floats h time" and ?m = "floats h non_pad_mask"
  let ?r = "tabulate [B, L - 1] (\<lambda>idx. 0.5 *
              ((entry ?l (shift_dim1 idx) + entry ?l idx) * entry ?m (shift_dim1 idx)
               * ((entry ?t (shift_dim1 idx) - entry ?t idx) * entry ?m (shift_dim1 idx))))"
  have val: "compute_integral_biased_value l t m = Inr
              (tabulate [B, L - 1] (\<lambda>idx. 0.5 *
                ((entry l (shift_dim1 idx) + entry l idx) * entry m (shift_dim1 idx)
                 * ((entry t (shift_dim1 idx) - entry t idx) * entry m (shift_dim1 idx)))))"
    if "shape l = [B, L]" "shape t = [B, L]" "shape m = [B, L]" for l t m
    using that
    by (simp add: compute_integral_biased_value_def slice_from1_def slice_upto1_def)
  have res: "fst (compute_integral_biased h' all_lambda time non_pad_mask) = Inr ?r"
    if "floats h' all_lambda = ?l" "floats h' time = ?t" "floats h' non_pad_mask = ?m" for h'
    using that assms(1-3) by (simp add: compute_integral_biased_def val)
  have v: "valid [B, L - 1] [i, j]"
    using assms(4,5) by (simp add: valid_def)
  define r where "r = ?r"
  have A: "fst (compute_integral_biased h all_lambda time non_pad_mask) = Inr r"
    unfolding r_def by (rule res) simp_all
  have B: "shape r = [B, L - 1]"
    by (simp add: r_def)
  have C: "entry r [i, j] =
      0.5 * (((entry ?l [i, Suc j] + entry ?l [i, j]) * entry ?m [i, Suc j])
             * ((entry ?t [i, Suc j] - entry ?t [i, j]) * entry ?m [i, Suc j]))"
    using v by (simp add: r_def)
  have D: "entry ?m [i, Suc j] = 1 \<longrightarrow>
      entry r [i, j] = (entry ?t [i, Suc j] - entry ?t [i, j])
                       * ((entry ?l [i, j] + entry ?l [i, Suc j]) / 2)"
    unfolding C by (simp add: algebra_simps)
  have E: "entry ?m [i, Suc j] = 0 \<longrightarrow> entry r [i, j] = 0"
    unfolding C by simp
  have F: "\<forall>h'. floats h' all_lambda = ?l \<and> floats h' time = ?t \<and> floats h' non_pad_mask = ?m
             \<longrightarrow> fst (compute_integral_biased h' all_lambda time non_pad_mask) = Inr r"
    unfolding r_def using res by blast
  from A B C D E F show ?thesis by blast
qed

theorem compute_integral_biased_entry_witness:
  "shape (floats integral_store 0) = [1, 3] \<and> shape (floats integral_store 1) = [1, 3]
   \<and> shape (floats integral_store 2) = [1, 3] \<and> (0::nat) < 1 \<and> Suc 0 < 3
   \<and> entry (floats integral_store 2) [0, Suc 0] = 1
   \<and> (\<exists>r. fst (compute_integral_biased integral_store 0 1 2) = Inr r \<and> shape r = [1, 2]
          \<and> entry r [0, 0] = 3)"
proof -
  have a: "shape (floats integral_store 0) = [1, 3]"
    and b: "shape (floats integral_store 1) = [1, 3]"
    and c: "shape (floats integral_store 2) = [1, 3]"
    by (simp_all add: integral_store_def put_float_def)
  have d: "(0::nat) < 1" and e: "Suc 0 < 3" by simp_all
  have m: "entry (floats integral_store 2) [0, Suc 0] = 1"
    and l0: "entry (floats integral_store 0) [0, 0] = 2"
    and l1: "entry (floats integral_store 0) [0, Suc 0] = 4"
    and t0: "entry (floats integral_store 1) [0, 0] = 0"
    and t1: "entry (floats integral_store 1) [0, Suc 0] = 1"
    by (simp_all add: integral_store_def put_float_def entry_def)
  from compute_integral_biased_entry [OF a b c d e] a b c m l0 l1 t0 t1
  show ?thesis by auto
qed

text \<open>
  C9. For a prediction of shape (batch, length, 1) and event times of shape
  (batch, length), time_loss returns the sum over all positions (i, j), j below
  length - 1, padded or not, of the squared difference between the prediction at j and
  the gap \<open>time[j+1] - time[j]\<close>. When every prediction equals its gap the result is
  exactly 0.
\<close>

theorem time_loss_sum_of_squares:
  assumes "shape (floats h prediction) = [B, L, 1]"
    and "shape (floats h event_time) = [B, L]"
  shows "\<exists>se. fst (time_loss h prediction event_time) = Inr se
          \<and> se = (\<Sum>i<B. \<Sum>j<L - 1.
                    (entry (floats h prediction) [i, j, 0]
                      - (entry (floats h event_time) [i, Suc j] - entry (floats h event_time) [i, j]))\<^sup>2)
          \<and> ((\<forall>i<B. \<forall>j<L - 1. entry (floats h prediction) [i, j, 0]
                  = entry (floats h event_time) [i, Suc j] - entry (floats h event_time) [i, j])
               \<longrightarrow> se = 0)"
proof -
  let ?p = "floats h prediction" and ?t = "floats h event_time"
  let ?p' = "squeeze_last ?p"
  let ?h1 = "put_float prediction ?p' h"
  let ?sq = "\<lambda>idx. (entry ?p' idx - (entry ?t (shift_dim1 idx) - entry ?t idx))
                    * (entry ?p' idx - (entry ?t (shift_dim1 idx) - entry ?t idx))"
  have ne: "prediction \<noteq> event_time"
    using assms by auto
  have p1: "floats ?h1 prediction = ?p'" and t1: "floats ?h1 event_time = ?t"
    using ne by (simp_all add: put_float_def)
  have sp: "shape ?p' = [B, L]"
    using assms(1) by (simp add: squeeze_last_def)
  have ep: "entry ?p' [i, j] = entry ?p [i, j, 0]" for i j
    using assms(1) by (simp add: squeeze_last_def entry_def)
  have res: "fst (time_loss h prediction event_time) = Inr (sum_all (tabulate [B, L - 1] ?sq))"
    unfolding time_loss_def Let_def p1 t1
    using assms(2) sp
    by (simp add: slice_from1_def slice_upto1_def)
  have val: "sum_all (tabulate [B, L - 1] ?sq)
             = (\<Sum>i<B. \<Sum>j<L - 1.
                  (entry ?p [i, j, 0] - (entry ?t [i, Suc j] - entry ?t [i, j]))\<^sup>2)"
    by (simp add: sum_all_tabulate_2 ep power2_eq_square)
  show ?thesis
    unfolding res val by simp
qed

theorem time_loss_sum_of_squares_witness:
  "shape (floats time_store 0) = [1, 3, 1] \<and> shape (floats time_store 1) = [1, 3]
   \<and> entry (floats time_store 0) [0, 0, 0]
       = entry (floats time_store 1) [0, 1] - entry (floats time_store 1) [0, 0]
   \<and> entry (floats time_store 0) [0, 1, 0]
       = entry (floats time_store 1) [0, 2] - entry (floats time_store 1) [0, 1]
   \<and> (\<exists>se. fst (time_loss time_store 0 1) = Inr se \<and> se = 0)"
proof -
  have a: "shape (floats time_store 0) = [1, 3, 1]"
    and b: "shape (floats time_store 1) = [1, 3]"
    by (simp_all add: time_store_def put_float_def)
  have p0: "entry (floats time_store 0) [0, 0, 0] = 1"
    and p1: "entry (floats time_store 0) [0, Suc 0, 0] = 2"
    and t0: "entry (floats time_store 1) [0, 0] = 0"
    and t1: "entry (floats time_store 1) [0, Suc 0] = 1"
    and t2: "entry (floats time_store 1) [0, Suc (Suc 0)] = 3"
    by (simp_all add: time_store_def put_float_def entry_def)
  have eqs: "\<forall>i<1. \<forall>j<3 - 1. entry (floats time_store 0) [i, j, 0]
               = entry (floats time_store 1) [i, Suc j] - entry (floats time_store 1) [i, j]"
    using p0 p1 t0 t1 t2 by (simp add: less_Suc_eq numeral_2_eq_2 numeral_3_eq_3)
  from time_loss_sum_of_squares [OF a b] eqs a b p0 p1 t0 t1 t2
  show ?thesis by (auto simp: numeral_2_eq_2)
qed

text \<open>
  C1. The claim: the smoothed target distribution that LabelSmoothingLoss.forward builds
  sums to exactly 1 over the classes. The code gives the true class the mass
  \<open>1 - eps\<close> and each of the other \<open>K - 1\<close> classes the mass \<open>eps / K\<close>. With
  \<open>eps = 1/2\<close>, two classes and the target class 0 the distribution is (1/2, 1/4), whose
  sum over the classes is 3/4. For every target the sum is \<open>1 - eps / K\<close>
  (\<open>smoothed_one_hot_class_sum\<close>), below 1 for every \<open>eps\<close> in (0, 1].
\<close>

theorem smoothed_one_hot_sum_example:
  "smoothed_one_hot smoothing_example target_example
     = Inr \<lparr>shape = [1, 2], data = [1 / 2, 1 / 4]\<rparr>
   \<and> sum_last \<lparr>shape = [1, 2], data = [1 / 2, 1 / 4 :: real]\<rparr> = \<lparr>shape = [1], data = [3 / 4]\<rparr>"
  by (simp add: smoothed_one_hot_def smoothing_example_def target_example_def one_hot_def
      tabulate_def map_tensor_def entry_def sum_last_def fibre_def upt_conv_Cons)

text \<open>
  C8. LabelSmoothingLoss.forward overwrites the caller's target tensor: after the call,
  whether it returned or raised, the tensor has its old shape, every entry that was the
  ignore index is 0 and every other entry is what it was. Nothing else the caller holds
  is changed.
\<close>

theorem forward_overwrites_target:
  assumes "well_formed (longs h target)"
  shows "shape (longs (snd (forward h self output target)) target) = shape (longs h target)
    \<and> (\<forall>idx. valid (shape (longs h target)) idx \<longrightarrow>
          entry (longs (snd (forward h self output target)) target) idx
            = (if entry (longs h target) idx = ignore_index self then 0
               else entry (longs h target) idx))
    \<and> (\<forall>a. a \<noteq> target \<longrightarrow> longs (snd (forward h self output target)) a = longs h a)
    \<and> floats (snd (forward h self output target)) = floats h"
proof -
  have "snd (forward h self output target)
        = put_long target (snd (forward_on self (floats h output) (longs h target))) h"
    by (simp add: forward_def split_def Let_def)
  then show ?thesis
    using assms by (simp add: snd_forward_on put_long_def)
qed

theorem forward_overwrites_target_witness:
  "well_formed (longs forward_store 0) \<and> valid (shape (longs forward_store 0)) [0, 1]
   \<and> entry (longs forward_store 0) [0, 1] = ignore_index smoothing_example
   \<and> valid (shape (longs forward_store 0)) [0, 0]
   \<and> entry (longs forward_store 0) [0, 0] \<noteq> ignore_index smoothing_example
   \<and> entry (longs (snd (forward forward_store smoothing_example 0 0)) 0) [0, 1] = 0
   \<and> entry (longs (snd (forward forward_store smoothing_example 0 0)) 0) [0, 0] = 1"
proof -
  have a: "well_formed (longs forward_store 0)"
    by (simp add: forward_store_def put_float_def put_long_def well_formed_def)
  have b: "valid (shape (longs forward_store 0)) [0, 1]"
    and c: "valid (shape (longs forward_store 0)) [0, 0]"
    by (simp_all add: forward_store_def put_float_def put_long_def valid_def)
  have d: "entry (longs forward_store 0) [0, 1] = - 1"
    and e: "entry (longs forward_store 0) [0, 0] = 1"
    by (simp_all add: forward_store_def put_float_def put_long_def entry_def)
  have i: "ignore_index smoothing_example = - 1"
    by (simp add: smoothing_example_def)
  from forward_overwrites_target [OF a, of smoothing_example 0] a b c d e i
  show ?thesis by simp
qed

text \<open>
  C5. For a prediction of shape (batch, length, K) and types of shape (batch, length),
  whenever type_loss returns, its correct-count is the number of positions of the
  shifted tensors, padding included, where the predicted class equals the shifted truth
  \<open>types[:, 1:] - 1\<close> (a 64-bit subtraction). The predicted class at a position is the
  arg-max of the K logits there: the first index whose logit is maximal. It lies in
  0..K-1 and so is never the padding value -1, which the shifted truth takes exactly where
  the type is 0: the count is also the number of such positions that are not padding.
  With a LabelSmoothingLoss of K classes and ignore index -1 the routine does return on
  such inputs (\<open>type_loss_returns\<close>).
\<close>

theorem type_loss_correct_count:
  assumes "shape (floats h prediction) = [B, L, K]"
    and "shape (longs h types) = [B, L]"
    and "fst (type_loss h prediction types loss_func)
         = Inr (loss_r, correct_num, true_list, pred_list)"
  shows "\<exists>truth pred_type.
      shifted_truth (longs h types) = Inr truth
      \<and> predicted_type (floats h prediction) = Inr pred_type
      \<and> shape truth = [B, L - 1] \<and> shape pred_type = [B, L - 1]
      \<and> correct_num
          = int (card {idx. valid [B, L - 1] idx \<and> entry pred_type idx = entry truth idx})
      \<and> (\<forall>idx. valid [B, L - 1] idx \<longrightarrow>
            entry truth idx = wrap64 (entry (longs h types) (shift_dim1 idx) - 1)
            \<and> (int64 (entry (longs h types) (shift_dim1 idx)) \<longrightarrow>
                 (entry truth idx = - 1) = (entry (longs h types) (shift_dim1 idx) = 0))
            \<and> 0 \<le> entry pred_type idx \<and> entry pred_type idx < int K
            \<and> entry pred_type idx \<noteq> - 1
            \<and> (\<forall>k<K. entry (floats h prediction) (idx @ [k])
                       \<le> entry (floats h prediction) (idx @ [nat (entry pred_type idx)]))
            \<and> (\<forall>k<nat (entry pred_type idx).
                   entry (floats h prediction) (idx @ [k])
                     < entry (floats h prediction) (idx @ [nat (entry pred_type idx)])))
      \<and> correct_num
          = int (card {idx. valid [B, L - 1] idx \<and> entry truth idx \<noteq> - 1
                          \<and> entry pred_type idx = entry truth idx})"
proof -
  have K: "0 < K"
  proof (rule ccontr)
    assume "\<not> 0 < K"
    with assms(1,2) have "type_loss_value (floats h prediction) (longs h types) loss_func
                          = Inl IndexError"
      by (intro type_loss_value_no_class) simp_all
    with assms(3) show False by (simp add: type_loss_def)
  qed
  from type_loss_value_shaped [OF assms(1,2) K refl, of loss_func]
  obtain truth pred3 pred_type where
    tr: "shifted_truth (longs h types) = Inr truth"
    and pt: "predicted_type (floats h prediction) = Inr pred_type"
    and sh: "shape truth = [B, L - 1]" "shape pred_type = [B, L - 1]"
    and ent: "\<forall>idx. valid [B, L - 1] idx \<longrightarrow>
            entry truth idx = wrap64 (entry (longs h types) (shift_dim1 idx) - 1)
            \<and> entry pred_type idx
                = int (argmax_list (map (\<lambda>k. entry (floats h prediction) (idx @ [k])) [0..<K]))"
    and val: "type_loss_value (floats h prediction) (longs h types) loss_func =
          bindE (case loss_func of
                   LabelSmoothing self \<Rightarrow> fst (forward_on self pred3 truth)
                 | Other f \<Rightarrow> bindE (transpose12 pred3) (\<lambda>p. f p truth))
            (\<lambda>loss. Inr (sum_all loss,
               int (card {idx. valid [B, L - 1] idx \<and> entry pred_type idx = entry truth idx}),
               concat (map (\<lambda>i. takeWhile (\<lambda>v. v \<noteq> - 1) (row_list truth i)) [0..<B]),
               concat (map (\<lambda>i. take (length (takeWhile (\<lambda>v. v \<noteq> - 1) (row_list truth i)))
                                     (row_list pred_type i)) [0..<B])))"
    by blast
  have cn: "correct_num
            = int (card {idx. valid [B, L - 1] idx \<and> entry pred_type idx = entry truth idx})"
    using assms(3) unfolding type_loss_def fst_conv val
    by (auto simp: bindE_def split: sum.splits)
  have pos: "entry truth idx = wrap64 (entry (longs h types) (shift_dim1 idx) - 1)
            \<and> (int64 (entry (longs h types) (shift_dim1 idx)) \<longrightarrow>
                 (entry truth idx = - 1) = (entry (longs h types) (shift_dim1 idx) = 0))
            \<and> 0 \<le> entry pred_type idx \<and> entry pred_type idx < int K
            \<and> entry pred_type idx \<noteq> - 1
            \<and> (\<forall>k<K. entry (floats h prediction) (idx @ [k])
                       \<le> entry (floats h prediction) (idx @ [nat (entry pred_type idx)]))
            \<and> (\<forall>k<nat (entry pred_type idx).
                   entry (floats h prediction) (idx @ [k])
                     < entry (floats h prediction) (idx @ [nat (entry pred_type idx)]))"
    if v: "valid [B, L - 1] idx" for idx
  proof -
    from ent v have t: "entry truth idx = wrap64 (entry (longs h types) (shift_dim1 idx) - 1)"
      and p: "entry pred_type idx
              = int (argmax_list (map (\<lambda>k. entry (floats h prediction) (idx @ [k])) [0..<K]))"
      by simp_all
    from argmax_tabulated [OF K p] t show ?thesis
      by (simp add: wrap64_pred_padding)
  qed
  have "{idx. valid [B, L - 1] idx \<and> entry pred_type idx = entry truth idx}
        = {idx. valid [B, L - 1] idx \<and> entry truth idx \<noteq> - 1
                \<and> entry pred_type idx = entry truth idx}"
    using pos by auto
  with cn have cn': "correct_num
          = int (card {idx. valid [B, L - 1] idx \<and> entry truth idx \<noteq> - 1
                          \<and> entry pred_type idx = entry truth idx})"
    by simp
  from tr pt sh cn cn' pos show ?thesis
    by (intro exI [of _ truth] exI [of _ pred_type]) blast
qed


theorem type_loss_correct_count_witness:
  "shape (floats type_store 0) = [1, 3, 2] \<and> shape (longs type_store 0) = [1, 3]
   \<and> (\<exists>loss_r truth pred_type.
          fst (type_loss type_store 0 0 (LabelSmoothing smoothing_example))
            = Inr (loss_r, 1, [1], [1])
          \<and> shifted_truth (longs type_store 0) = Inr truth
          \<and> predicted_type (floats type_store 0) = Inr pred_type
          \<and> (1::int) = int (card {idx. valid [1, 3 - 1] idx \<and> entry truth idx \<noteq> - 1
                                     \<and> entry pred_type idx = entry truth idx}))"
proof -
  have a: "shape (floats type_store 0) = [1, 3, 2]" and b: "shape (longs type_store 0) = [1, 3]"
    by (simp_all add: type_store_def put_float_def put_long_def)
  from type_loss_example obtain loss_r where
    c: "fst (type_loss type_store 0 0 (LabelSmoothing smoothing_example))
        = Inr (loss_r, 1, [1], [1])"
    by (rule exE)
  from type_loss_correct_count [OF a b c] a b c show ?thesis
    by (elim exE conjE) (intro conjI exI, assumption+)
qed

text \<open>
  C7. Under the same conditions the reported truth list is, sequence after sequence, the
  row of the shifted truth \<open>types[:, 1:] - 1\<close> (a 64-bit subtraction) up to but excluding
  its first -1 (the whole row when it has none), and the reported prediction list is the
  row of predicted classes cut at the same position, each predicted class being the
  arg-max of the K logits of its position (the first index whose logit is maximal). For
  one sequence with types [1, 2, 0] the shifted truth is [1, -1] and the reported truth
  list is [1].
\<close>

theorem type_loss_trimmed_lists:
  assumes "shape (floats h prediction) = [B, L, K]"
    and "shape (longs h types) = [B, L]"
    and "fst (type_loss h prediction types loss_func)
         = Inr (loss_r, correct_num, true_list, pred_list)"
  shows "\<exists>truth pred_type.
      shifted_truth (longs h types) = Inr truth
      \<and> predicted_type (floats h prediction) = Inr pred_type
      \<and> (\<forall>i<B. row_list truth i
                 = map (\<lambda>j. wrap64 (entry (longs h types) [i, Suc j] - 1)) [0..<L - 1])
      \<and> (\<forall>i<B. length (row_list pred_type i) = L - 1)
      \<and> (\<forall>i<B. \<forall>j<L - 1.
            0 \<le> row_list pred_type i ! j \<and> row_list pred_type i ! j < int K
            \<and> (\<forall>k<K. entry (floats h prediction) [i, j, k]
                       \<le> entry (floats h prediction) [i, j, nat (row_list pred_type i ! j)])
            \<and> (\<forall>k<nat (row_list pred_type i ! j).
                   entry (floats h prediction) [i, j, k]
                     < entry (floats h prediction) [i, j, nat (row_list pred_type i ! j)]))
      \<and> true_list = concat (map (\<lambda>i. takeWhile (\<lambda>v. v \<noteq> - 1) (row_list truth i)) [0..<B])
      \<and> pred_list = concat (map (\<lambda>i. take (length (takeWhile (\<lambda>v. v \<noteq> - 1) (row_list truth i)))
                                         (row_list pred_type i)) [0..<B])"
proof -
  have K: "0 < K"
  proof (rule ccontr)
    assume "\<not> 0 < K"
    with assms(1,2) have "type_loss_value (floats h prediction) (longs h types) loss_func
                          = Inl IndexError"
      by (intro type_loss_value_no_class) simp_all
    with assms(3) show False by (simp add: type_loss_def)
  qed
  from type_loss_value_shaped [OF assms(1,2) K refl, of loss_func]
  obtain truth pred3 pred_type where
    tr: "shifted_truth (longs h types) = Inr truth"
    and pt: "predicted_type (floats h prediction) = Inr pred_type"
    and sh: "shape truth = [B, L - 1]" and shp: "shape pred_type = [B, L - 1]"
    and ent: "\<forall>idx. valid [B, L - 1] idx \<longrightarrow>
            entry truth idx = wrap64 (entry (longs h types) (shift_dim1 idx) - 1)
            \<and> entry pred_type idx
                = int (argmax_list (map (\<lambda>k. entry (floats h prediction) (idx @ [k])) [0..<K]))"
    and val: "type_loss_value (floats h prediction) (longs h types) loss_func =
          bindE (case loss_func of
                   LabelSmoothing self \<Rightarrow> fst (forward_on self pred3 truth)
                 | Other f \<Rightarrow> bindE (transpose12 pred3) (\<lambda>p. f p truth))
            (\<lambda>loss. Inr (sum_all loss,
               int (card {idx. valid [B, L - 1] idx \<and> entry pred_type idx = entry truth idx}),
               concat (map (\<lambda>i. takeWhile (\<lambda>v. v \<noteq> - 1) (row_list truth i)) [0..<B]),
               concat (map (\<lambda>i. take (length (takeWhile (\<lambda>v. v \<noteq> - 1) (row_list truth i)))
                                     (row_list pred_type i)) [0..<B])))"
    by blast
  have lists: "true_list = concat (map (\<lambda>i. takeWhile (\<lambda>v. v \<noteq> - 1) (row_list truth i)) [0..<B])
      \<and> pred_list = concat (map (\<lambda>i. take (length (takeWhile (\<lambda>v. v \<noteq> - 1) (row_list truth i)))
                                         (row_list pred_type i)) [0..<B])"
    using assms(3) unfolding type_loss_def fst_conv val
    by (auto simp: bindE_def split: sum.splits)
  have row: "row_list truth i
             = map (\<lambda>j. wrap64 (entry (longs h types) [i, Suc j] - 1)) [0..<L - 1]"
    if "i < B" for i
  proof -
    have "entry truth [i, j] = wrap64 (entry (longs h types) [i, Suc j] - 1)" if "j < L - 1" for j
      using ent \<open>i < B\<close> that by (simp add: valid_def)
    then show ?thesis by (simp add: row_list_def sh)
  qed
  have len: "length (row_list pred_type i) = L - 1" for i
    by (simp add: row_list_def shp)
  have cls: "0 \<le> row_list pred_type i ! j \<and> row_list pred_type i ! j < int K
            \<and> (\<forall>k<K. entry (floats h prediction) [i, j, k]
                       \<le> entry (floats h prediction) [i, j, nat (row_list pred_type i ! j)])
            \<and> (\<forall>k<nat (row_list pred_type i ! j).
                   entry (floats h prediction) [i, j, k]
                     < entry (floats h prediction) [i, j, nat (row_list pred_type i ! j)])"
    if "i < B" "j < L - 1" for i j
  proof -
    have r: "row_list pred_type i ! j = entry pred_type [i, j]"
      using that(2) by (simp add: row_list_def shp)
    have "valid [B, L - 1] [i, j]"
      using that by (simp add: valid_def)
    with ent have "entry pred_type [i, j]
        = int (argmax_list (map (\<lambda>k. entry (floats h prediction) ([i, j] @ [k])) [0..<K]))"
      by blast
    from argmax_tabulated [OF K this] show ?thesis
      unfolding r by simp
  qed
  from tr pt lists row len cls show ?thesis
    by (intro exI [of _ truth] exI [of _ pred_type]) blast
qed

theorem type_loss_trimmed_lists_witness:
  "shape (floats type_store 0) = [1, 3, 2] \<and> shape (longs type_store 0) = [1, 3]
   \<and> (\<exists>loss_r truth pred_type.
          fst (type_loss type_store 0 0 (LabelSmoothing smoothing_example))
            = Inr (loss_r, 1, [1], [1])
          \<and> shifted_truth (longs type_store 0) = Inr truth
          \<and> predicted_type (floats type_store 0) = Inr pred_type
          \<and> row_list truth 0 = [1, - 1]
          \<and> [1] = concat (map (\<lambda>i. takeWhile (\<lambda>v. v \<noteq> - 1) (row_list truth i)) [0..<1]))"
proof -
  have a: "shape (floats type_store 0) = [1, 3, 2]" and b: "shape (longs type_store 0) = [1, 3]"
    by (simp_all add: type_store_def put_float_def put_long_def)
  have g: "longs type_store 0 = \<lparr>shape = [1, 3], data = [1, 2, 0]\<rparr>"
    by (simp add: type_store_def put_float_def put_long_def)
  from type_loss_example obtain loss_r where
    c: "fst (type_loss type_store 0 0 (LabelSmoothing smoothing_example))
        = Inr (loss_r, 1, [1], [1])"
    by blast
  from type_loss_trimmed_lists [OF a b c] obtain truth pred_type where
    d: "shifted_truth (longs type_store 0) = Inr truth"
    and e: "predicted_type (floats type_store 0) = Inr pred_type"
    and r: "\<forall>i<1. row_list truth i
              = map (\<lambda>j. wrap64 (entry (longs type_store 0) [i, Suc j] - 1)) [0..<3 - 1]"
    and l: "[1] = concat (map (\<lambda>i. takeWhile (\<lambda>v. v \<noteq> - 1) (row_list truth i)) [0..<1])"
    by (elim exE conjE) (rule that)
  from r have "row_list truth 0 = [1, - 1]"
    by (simp add: g entry_def upt_conv_Cons wrap64_id int64_def)
  with a b c d e l show ?thesis
    by (intro conjI exI) assumption+
qed

text \<open>
  C3. The claim: no operation validates a precondition, and constructing a
  LabelSmoothingLoss with a smoothing factor outside (0, 1] raises no validation failure.
  The constructor asserts \<open>0 < label_smoothing \<le> 1\<close>: a factor of 1.5 raises
  AssertionError.
\<close>

theorem init_rejects_example: "LabelSmoothingLoss_init (3 / 2) 3 (- 100) = Inl AssertionError"
  by (simp add: LabelSmoothingLoss_init_def)

text \<open>
  C3, amended. The constructor of LabelSmoothingLoss validates its smoothing factor: it
  raises AssertionError exactly when the factor is outside (0, 1], and otherwise returns
  the object with the three values it was given. No other operation validates anything:
  softplus, compute_event, compute_integral_biased, time_loss and forward never raise
  AssertionError; compute_integral_unbiased and log_likelihood raise none unless a linear
  layer of the model or \<^verbatim>\<open>get_non_pad_mask\<close> does; type_loss raises none with a
  LabelSmoothingLoss, and none with another loss function unless that function does.
  Shapes that do not broadcast are met by the RuntimeError of the tensor operation, in
  softplus and in compute_event. softplus does not look at \<open>beta\<close>: whenever the two shapes
  broadcast it returns a tensor of the broadcast shape, for a zero or negative \<open>beta\<close> too.
\<close>

theorem only_the_constructor_validates:
  "(LabelSmoothingLoss_init label_smoothing tgt_vocab_size ignore = Inl AssertionError)
     = (\<not> (0 < label_smoothing \<and> label_smoothing \<le> 1))
   \<and> (LabelSmoothingLoss_init label_smoothing tgt_vocab_size ignore
        = Inr \<lparr>eps = label_smoothing, num_classes = tgt_vocab_size, ignore_index = ignore\<rparr>)
     = (0 < label_smoothing \<and> label_smoothing \<le> 1)
   \<and> fst (softplus h x beta) \<noteq> Inl AssertionError
   \<and> fst (compute_event h event non_pad_mask) \<noteq> Inl AssertionError
   \<and> fst (compute_integral_biased h all_lambda time non_pad_mask) \<noteq> Inl AssertionError
   \<and> ((\<forall>l\<in>set (linear_list model). \<forall>d. l d \<noteq> Inl AssertionError) \<longrightarrow>
        fst (compute_integral_unbiased rand h model process_idx data' time non_pad_mask type_mask)
          \<noteq> Inl AssertionError)
   \<and> ((\<forall>l\<in>set (linear_list model). \<forall>d. l d \<noteq> Inl AssertionError)
        \<and> (\<forall>t. get_non_pad_mask t \<noteq> Inl AssertionError) \<longrightarrow>
        fst (log_likelihood get_non_pad_mask rand h model process_idx data' time types)
          \<noteq> Inl AssertionError)
   \<and> ((\<forall>f. loss_func = Other f \<longrightarrow> (\<forall>p t. f p t \<noteq> Inl AssertionError)) \<longrightarrow>
        fst (type_loss h prediction types loss_func) \<noteq> Inl AssertionError)
   \<and> fst (time_loss h prediction event_time) \<noteq> Inl AssertionError
   \<and> fst (forward h self output target) \<noteq> Inl AssertionError
   \<and> (broadcast_shape (shape (floats h beta)) (shape (floats h x)) = None \<longrightarrow>
        fst (softplus h x beta) = Inl RuntimeError)
   \<and> (broadcast_shape (shape (floats h event)) (shape (floats h non_pad_mask))
         \<noteq> Some (shape (floats h event)) \<longrightarrow>
        fst (compute_event h event non_pad_mask) = Inl RuntimeError)
   \<and> (\<forall>sh. broadcast_shape (shape (floats h beta)) (shape (floats h x)) = Some sh \<longrightarrow>
        (\<exists>r. fst (softplus h x beta) = Inr r \<and> shape r = sh))"
proof -
  have init: "(LabelSmoothingLoss_init label_smoothing tgt_vocab_size ignore = Inl AssertionError)
     = (\<not> (0 < label_smoothing \<and> label_smoothing \<le> 1))
   \<and> (LabelSmoothingLoss_init label_smoothing tgt_vocab_size ignore
        = Inr \<lparr>eps = label_smoothing, num_classes = tgt_vocab_size, ignore_index = ignore\<rparr>)
     = (0 < label_smoothing \<and> label_smoothing \<le> 1)"
    by (simp add: LabelSmoothingLoss_init_def)
  have sp: "fst (softplus h x beta) \<noteq> Inl AssertionError"
    by (simp add: softplus_def softplus_value_no_assert)
  have ce: "fst (compute_event h event non_pad_mask) \<noteq> Inl AssertionError"
    by (rule compute_event_no_assert)
  have cb: "fst (compute_integral_biased h all_lambda time non_pad_mask) \<noteq> Inl AssertionError"
    by (simp add: compute_integral_biased_def compute_integral_biased_value_no_assert)
  have cu: "(\<forall>l\<in>set (linear_list model). \<forall>d. l d \<noteq> Inl AssertionError) \<longrightarrow>
        fst (compute_integral_unbiased rand h model process_idx data' time non_pad_mask type_mask)
          \<noteq> Inl AssertionError"
    by (simp add: compute_integral_unbiased_def compute_integral_unbiased_value_no_assert)
  have ll: "(\<forall>l\<in>set (linear_list model). \<forall>d. l d \<noteq> Inl AssertionError)
        \<and> (\<forall>t. get_non_pad_mask t \<noteq> Inl AssertionError) \<longrightarrow>
        fst (log_likelihood get_non_pad_mask rand h model process_idx data' time types)
          \<noteq> Inl AssertionError"
    by (simp add: log_likelihood_def log_likelihood_value_no_assert)
  have ty: "(\<forall>f. loss_func = Other f \<longrightarrow> (\<forall>p t. f p t \<noteq> Inl AssertionError)) \<longrightarrow>
        fst (type_loss h prediction types loss_func) \<noteq> Inl AssertionError"
    by (cases loss_func)
      (simp_all add: type_loss_def type_loss_value_no_assert type_loss_value_other_no_assert)
  have tl: "fst (time_loss h prediction event_time) \<noteq> Inl AssertionError"
    by (rule time_loss_no_assert)
  have "fst (forward h self output target) = fst (forward_on self (floats h output) (longs h target))"
    by (simp add: forward_def split_def Let_def)
  then have fw: "fst (forward h self output target) \<noteq> Inl AssertionError"
    by (simp add: forward_on_no_assert)
  have s1: "broadcast_shape (shape (floats h beta)) (shape (floats h x)) = None \<longrightarrow>
        fst (softplus h x beta) = Inl RuntimeError"
    by (simp add: softplus_def softplus_value_raises)
  have s2: "broadcast_shape (shape (floats h event)) (shape (floats h non_pad_mask))
         \<noteq> Some (shape (floats h event)) \<longrightarrow>
        fst (compute_event h event non_pad_mask) = Inl RuntimeError"
    using compute_event_raised [of h event non_pad_mask] by blast
  have s3: "\<forall>sh. broadcast_shape (shape (floats h beta)) (shape (floats h x)) = Some sh \<longrightarrow>
        (\<exists>r. fst (softplus h x beta) = Inr r \<and> shape r = sh)"
    using softplus_value_returns [of "floats h beta" "floats h x"] by (simp add: softplus_def)
  from init sp ce cb cu ll ty tl fw s1 s2 s3 show ?thesis
    by (intro conjI) (elim conjE, assumption)+
qed

theorem only_the_constructor_validates_witness:
  "LabelSmoothingLoss_init (1 / 2) 2 (- 1) = Inr smoothing_example
   \<and> LabelSmoothingLoss_init 0 2 (- 1) = Inl AssertionError
   \<and> list_all (\<lambda>l. True) (linear_list no_layers)
   \<and> fst (compute_integral_unbiased constant_draw integral_store no_layers 0 0 1 2 2)
       \<noteq> Inl AssertionError
   \<and> fst (log_likelihood example_non_pad_mask constant_draw type_store no_layers 0 0 0 0)
       \<noteq> Inl AssertionError
   \<and> fst (type_loss type_store 0 0 (Other identity_loss)) \<noteq> Inl AssertionError
   \<and> broadcast_shape (shape (floats mismatch_store 1)) (shape (floats mismatch_store 0)) = None
   \<and> fst (softplus mismatch_store 0 1) = Inl RuntimeError
   \<and> broadcast_shape (shape (floats mismatch_store 0)) (shape (floats mismatch_store 1))
       \<noteq> Some (shape (floats mismatch_store 0))
   \<and> fst (compute_event mismatch_store 0 1) = Inl RuntimeError
   \<and> broadcast_shape (shape (floats softplus_store 1)) (shape (floats softplus_store 0))
       = Some [1, 2]
   \<and> (\<exists>r. fst (softplus softplus_store 0 1) = Inr r \<and> shape r = [1, 2])"
proof -
  have n: "broadcast_shape (shape (floats mismatch_store 0)) (shape (floats mismatch_store 1))
           \<noteq> Some (shape (floats mismatch_store 0))"
    by (simp add: mismatch_store_def put_float_def broadcast_shape_def)
  have ce: "fst (compute_event mismatch_store 0 1) = Inl RuntimeError"
    using only_the_constructor_validates [where h = mismatch_store and event = 0
        and non_pad_mask = 1] n
    by blast
  have i1: "LabelSmoothingLoss_init (1 / 2) 2 (- 1) = Inr smoothing_example"
    using only_the_constructor_validates [where label_smoothing = "1 / 2"
        and tgt_vocab_size = 2 and ignore = "- 1"]
    by (simp add: smoothing_example_def)
  have i2: "LabelSmoothingLoss_init 0 2 (- 1) = Inl AssertionError"
    using only_the_constructor_validates [where label_smoothing = 0
        and tgt_vocab_size = 2 and ignore = "- 1"]
    by simp
  have nl: "\<forall>l\<in>set (linear_list no_layers). \<forall>d. l d \<noteq> Inl AssertionError"
    by (simp add: no_layers_def)
  have gm: "\<forall>t. example_non_pad_mask t \<noteq> Inl AssertionError"
    by (simp add: example_non_pad_mask_def unsqueeze2_def split: list.split)
  have il: "\<forall>f. Other identity_loss = Other f \<longrightarrow> (\<forall>p t. f p t \<noteq> Inl AssertionError)"
    by (simp add: identity_loss_def)
  have u: "fst (compute_integral_unbiased constant_draw integral_store no_layers 0 0 1 2 2)
           \<noteq> Inl AssertionError"
    using only_the_constructor_validates [where model = no_layers and h = integral_store
        and rand = constant_draw and process_idx = 0 and data' = 0 and time = 1
        and non_pad_mask = 2 and type_mask = 2] nl
    by blast
  have l: "fst (log_likelihood example_non_pad_mask constant_draw type_store no_layers 0 0 0 0)
           \<noteq> Inl AssertionError"
    using only_the_constructor_validates [where model = no_layers and h = type_store
        and rand = constant_draw and process_idx = 0 and data' = 0 and time = 0
        and types = 0 and get_non_pad_mask = example_non_pad_mask] nl gm
    by blast
  have t: "fst (type_loss type_store 0 0 (Other identity_loss)) \<noteq> Inl AssertionError"
    using only_the_constructor_validates [where h = type_store and prediction = 0
        and types = 0 and loss_func = "Other identity_loss"] il
    by blast
  have m: "broadcast_shape (shape (floats mismatch_store 1)) (shape (floats mismatch_store 0))
           = None"
    by (simp add: mismatch_store_def put_float_def broadcast_shape_def)
  have r: "fst (softplus mismatch_store 0 1) = Inl RuntimeError"
    using only_the_constructor_validates [where h = mismatch_store and x = 0 and beta = 1] m
    by blast
  have b: "broadcast_shape (shape (floats softplus_store 1)) (shape (floats softplus_store 0))
           = Some [1, 2]"
    by (simp add: softplus_store_def put_float_def empty_store_def broadcast_shape_def)
  have "\<forall>sh. broadcast_shape (shape (floats softplus_store 1))
            (shape (floats softplus_store 0)) = Some sh \<longrightarrow>
          (\<exists>r. fst (softplus softplus_store 0 1) = Inr r \<and> shape r = sh)"
    by (rule only_the_constructor_validates [where h = softplus_store and x = 0 and beta = 1,
          THEN conjunct2, THEN conjunct2, THEN conjunct2, THEN conjunct2, THEN conjunct2,
          THEN conjunct2, THEN conjunct2, THEN conjunct2, THEN conjunct2, THEN conjunct2,
          THEN conjunct2, THEN conjunct2])
  then have s: "\<exists>r. fst (softplus softplus_store 0 1) = Inr r \<and> shape r = [1, 2]"
    using b by (elim allE impE) assumption+
  have e: "list_all (\<lambda>l. True) (linear_list no_layers)"
    by (simp add: no_layers_def)
  from i1 i2 e u l t m r n ce b s show ?thesis
    by (intro conjI)
qed

text \<open>
  C2. The claim: every operation but LabelSmoothingLoss.forward leaves its argument
  tensors unchanged. compute_event overwrites its \<open>event\<close> argument: intensities
  (2, 5, -7) under the mask (1, 1, 0) are (2 + 1e-9, 5 + 1e-9, 1) after the call. time_loss
  reshapes its \<open>prediction\<close> argument from (1, 3, 1) to (1, 3).
\<close>

theorem in_place_examples:
  "floats (snd (compute_event event_store 0 1)) 0 \<noteq> floats event_store 0
   \<and> data (floats event_store 0) = [2, 5, - 7]
   \<and> data (floats (snd (compute_event event_store 0 1)) 0)
       = [2 + event_epsilon, 5 + event_epsilon, 1]
   \<and> shape (floats time_store 0) = [1, 3, 1]
   \<and> shape (floats (snd (time_loss time_store 0 1)) 0) = [1, 3]"
proof -
  have e: "floats event_store 0 = \<lparr>shape = [1, 3], data = [2, 5, - 7]\<rparr>"
    and m: "floats event_store 1 = \<lparr>shape = [1, 3], data = [1, 1, 0]\<rparr>"
    by (simp_all add: event_store_def put_float_def)
  have ne: "(0::nat) \<noteq> 1" by simp
  have "floats (snd (compute_event event_store 0 1)) 0
        = \<lparr>shape = [1, 3], data = [2 + event_epsilon, 5 + event_epsilon, 1]\<rparr>"
    unfolding compute_event_distinct [OF ne] e m snd_conv compute_event_on_example
    by (simp add: put_float_def)
  moreover have "shape (floats (snd (time_loss time_store 0 1)) 0) = [1, 3]"
    by (simp add: time_loss_def Let_def time_store_def put_float_def squeeze_last_def)
  moreover have "shape (floats time_store 0) = [1, 3, 1]"
    by (simp add: time_store_def put_float_def)
  ultimately show ?thesis by (simp add: e)
qed

text \<open>
  C2, amended. softplus, compute_integral_biased, compute_integral_unbiased,
  log_likelihood and type_loss leave every tensor of the caller unchanged. compute_event
  overwrites its \<open>event\<close> argument in place and changes no other tensor: the shape stays,
  and with a mask that is another tensor and broadcasts to the shape of \<open>event\<close>, each
  entry is 1 where the mask is 0 and the old entry plus \<open>1e-9\<close> elsewhere; with \<open>event\<close>
  itself as the mask, each entry is 1 where the old entry plus \<open>1e-9\<close> is 0 and the old
  entry plus \<open>1e-9\<close> elsewhere; with a mask that does not broadcast to the shape of
  \<open>event\<close> the call raises RuntimeError after \<open>1e-9\<close> was added to every entry. time_loss
  drops a trailing dimension of size 1 from the shape of its \<open>prediction\<close> argument in
  place, keeps its entries, and changes no other tensor.
\<close>

theorem frame_of_the_routines:
  "snd (softplus h x beta) = h
   \<and> snd (compute_integral_biased h all_lambda time non_pad_mask) = h
   \<and> snd (compute_integral_unbiased rand h model process_idx data' time non_pad_mask type_mask) = h
   \<and> snd (log_likelihood get_non_pad_mask rand h model process_idx data' time types) = h
   \<and> snd (type_loss h prediction types loss_func) = h
   \<and> longs (snd (compute_event h event non_pad_mask)) = longs h
   \<and> (\<forall>a. a \<noteq> event \<longrightarrow> floats (snd (compute_event h event non_pad_mask)) a = floats h a)
   \<and> shape (floats (snd (compute_event h event non_pad_mask)) event) = shape (floats h event)
   \<and> event_epsilon = 1 / 10 ^ 9
   \<and> (event \<noteq> non_pad_mask \<and> well_formed (floats h event)
        \<and> well_formed (floats h non_pad_mask)
        \<and> broadcast_shape (shape (floats h event)) (shape (floats h non_pad_mask))
            = Some (shape (floats h event))
      \<longrightarrow> (\<forall>idx. valid (shape (floats h event)) idx \<longrightarrow>
             entry (floats (snd (compute_event h event non_pad_mask)) event) idx
             = (if entry (floats h non_pad_mask) (bidx (shape (floats h non_pad_mask)) idx) = 0
                then 1 else entry (floats h event) idx + event_epsilon)))
   \<and> (well_formed (floats h event)
      \<longrightarrow> (\<forall>idx. valid (shape (floats h event)) idx \<longrightarrow>
             entry (floats (snd (compute_event h event event)) event) idx
             = (if entry (floats h event) idx + event_epsilon = 0
                then 1 else entry (floats h event) idx + event_epsilon)))
   \<and> (broadcast_shape (shape (floats h event)) (shape (floats h non_pad_mask))
         \<noteq> Some (shape (floats h event))
      \<longrightarrow> fst (compute_event h event non_pad_mask) = Inl RuntimeError
          \<and> floats (snd (compute_event h event non_pad_mask)) event
              = map_tensor (\<lambda>v. v + event_epsilon) (floats h event))
   \<and> longs (snd (time_loss h prediction event_time)) = longs h
   \<and> (\<forall>a. a \<noteq> prediction \<longrightarrow> floats (snd (time_loss h prediction event_time)) a = floats h a)
   \<and> data (floats (snd (time_loss h prediction event_time)) prediction)
       = data (floats h prediction)
   \<and> shape (floats (snd (time_loss h prediction event_time)) prediction)
       = (if shape (floats h prediction) \<noteq> [] \<and> last (shape (floats h prediction)) = 1
          then butlast (shape (floats h prediction)) else shape (floats h prediction))"
proof -
  have ce: "longs (snd (compute_event h event non_pad_mask)) = longs h
     \<and> (\<forall>a. a \<noteq> event \<longrightarrow> floats (snd (compute_event h event non_pad_mask)) a = floats h a)
     \<and> shape (floats (snd (compute_event h event non_pad_mask)) event) = shape (floats h event)"
    by (auto simp: compute_event_def Let_def put_float_def masked_fill_def
        split: sum.splits if_splits)
  have tl: "snd (time_loss h prediction event_time)
            = put_float prediction (squeeze_last (floats h prediction)) h"
    by (simp add: time_loss_def Let_def)
  have pure: "snd (softplus h x beta) = h
   \<and> snd (compute_integral_biased h all_lambda time non_pad_mask) = h
   \<and> snd (compute_integral_unbiased rand h model process_idx data' time non_pad_mask type_mask) = h
   \<and> snd (log_likelihood get_non_pad_mask rand h model process_idx data' time types) = h
   \<and> snd (type_loss h prediction types loss_func) = h"
    by (simp add: softplus_def compute_integral_biased_def compute_integral_unbiased_def
        log_likelihood_def type_loss_def)
  have tls: "longs (snd (time_loss h prediction event_time)) = longs h
   \<and> (\<forall>a. a \<noteq> prediction \<longrightarrow> floats (snd (time_loss h prediction event_time)) a = floats h a)
   \<and> data (floats (snd (time_loss h prediction event_time)) prediction)
       = data (floats h prediction)
   \<and> shape (floats (snd (time_loss h prediction event_time)) prediction)
       = (if shape (floats h prediction) \<noteq> [] \<and> last (shape (floats h prediction)) = 1
          then butlast (shape (floats h prediction)) else shape (floats h prediction))"
    unfolding tl by (simp add: put_float_def squeeze_last_def)
  have eps: "event_epsilon = 1 / 10 ^ 9"
    by (simp add: event_epsilon_def)
  have written: "event \<noteq> non_pad_mask \<and> well_formed (floats h event)
        \<and> well_formed (floats h non_pad_mask)
        \<and> broadcast_shape (shape (floats h event)) (shape (floats h non_pad_mask))
            = Some (shape (floats h event))
      \<longrightarrow> (\<forall>idx. valid (shape (floats h event)) idx \<longrightarrow>
             entry (floats (snd (compute_event h event non_pad_mask)) event) idx
             = (if entry (floats h non_pad_mask) (bidx (shape (floats h non_pad_mask)) idx) = 0
                then 1 else entry (floats h event) idx + event_epsilon))"
    using compute_event_written [of event non_pad_mask h] by blast
  have same: "well_formed (floats h event)
      \<longrightarrow> (\<forall>idx. valid (shape (floats h event)) idx \<longrightarrow>
             entry (floats (snd (compute_event h event event)) event) idx
             = (if entry (floats h event) idx + event_epsilon = 0
                then 1 else entry (floats h event) idx + event_epsilon))"
    using compute_event_written_alias [of h event] by blast
  have raised: "broadcast_shape (shape (floats h event)) (shape (floats h non_pad_mask))
         \<noteq> Some (shape (floats h event))
      \<longrightarrow> fst (compute_event h event non_pad_mask) = Inl RuntimeError
          \<and> floats (snd (compute_event h event non_pad_mask)) event
              = map_tensor (\<lambda>v. v + event_epsilon) (floats h event)"
    using compute_event_raised [of h event non_pad_mask] by blast
  from pure ce eps written same raised tls show ?thesis
    by (intro conjI) (elim conjE, assumption)+
qed

theorem frame_of_the_routines_witness:
  "(0::nat) \<noteq> 1 \<and> well_formed (floats event_store 0) \<and> well_formed (floats event_store 1)
   \<and> broadcast_shape (shape (floats event_store 0)) (shape (floats event_store 1))
       = Some (shape (floats event_store 0))
   \<and> valid (shape (floats event_store 0)) [0, 2] \<and> valid (shape (floats event_store 0)) [0, 0]
   \<and> entry (floats (snd (compute_event event_store 0 1)) 0) [0, 2] = 1
   \<and> entry (floats (snd (compute_event event_store 0 1)) 0) [0, 0] = 2 + event_epsilon
   \<and> entry (floats (snd (compute_event event_store 0 0)) 0) [0, 2] = - 7 + event_epsilon
   \<and> broadcast_shape (shape (floats mismatch_store 0)) (shape (floats mismatch_store 1))
       \<noteq> Some (shape (floats mismatch_store 0))
   \<and> fst (compute_event mismatch_store 0 1) = Inl RuntimeError
   \<and> floats (snd (compute_event mismatch_store 0 1)) 0
       = map_tensor (\<lambda>v. v + event_epsilon) (floats mismatch_store 0)
   \<and> floats (snd (compute_event event_store 0 1)) 1 = floats event_store 1
   \<and> floats (snd (time_loss time_store 0 1)) 1 = floats time_store 1
   \<and> snd (softplus softplus_store 0 1) = softplus_store"
proof -
  have a: "(0::nat) \<noteq> 1" by simp
  have b: "well_formed (floats event_store 0)" and c: "well_formed (floats event_store 1)"
    by (simp_all add: event_store_def put_float_def well_formed_def)
  have d: "broadcast_shape (shape (floats event_store 0)) (shape (floats event_store 1))
           = Some (shape (floats event_store 0))"
    by (simp add: event_store_def put_float_def)
  have e: "valid (shape (floats event_store 0)) [0, 2]"
    and f: "valid (shape (floats event_store 0)) [0, 0]"
    by (simp_all add: event_store_def put_float_def valid_def)
  have m2: "entry (floats event_store 1) (bidx (shape (floats event_store 1)) [0, 2]) = 0"
    and m0: "entry (floats event_store 1) (bidx (shape (floats event_store 1)) [0, 0]) = 1"
    and e0: "entry (floats event_store 0) [0, 0] = 2"
    and e2: "entry (floats event_store 0) [0, 2] = - 7"
    by (simp_all add: event_store_def put_float_def bidx_def entry_def)
  note ev = frame_of_the_routines [where h = event_store and event = 0 and non_pad_mask = 1]
  from ev a b c d have w: "\<forall>idx. valid (shape (floats event_store 0)) idx \<longrightarrow>
             entry (floats (snd (compute_event event_store 0 1)) 0) idx
             = (if entry (floats event_store 1) (bidx (shape (floats event_store 1)) idx) = 0
                then 1 else entry (floats event_store 0) idx + event_epsilon)"
    by blast
  from w e m2 have w2: "entry (floats (snd (compute_event event_store 0 1)) 0) [0, 2] = 1"
    by simp
  from w f m0 e0 have w0: "entry (floats (snd (compute_event event_store 0 1)) 0) [0, 0]
                           = 2 + event_epsilon"
    by simp
  from ev b have s: "\<forall>idx. valid (shape (floats event_store 0)) idx \<longrightarrow>
             entry (floats (snd (compute_event event_store 0 0)) 0) idx
             = (if entry (floats event_store 0) idx + event_epsilon = 0
                then 1 else entry (floats event_store 0) idx + event_epsilon)"
    by blast
  have nz: "- 7 + event_epsilon \<noteq> 0"
    by (simp add: event_epsilon_def)
  from s e e2 nz have s2: "entry (floats (snd (compute_event event_store 0 0)) 0) [0, 2]
                           = - 7 + event_epsilon"
    by simp
  have n: "broadcast_shape (shape (floats mismatch_store 0)) (shape (floats mismatch_store 1))
           \<noteq> Some (shape (floats mismatch_store 0))"
    by (simp add: mismatch_store_def put_float_def broadcast_shape_def)
  from frame_of_the_routines [where h = mismatch_store and event = 0 and non_pad_mask = 1] n
  have r: "fst (compute_event mismatch_store 0 1) = Inl RuntimeError
           \<and> floats (snd (compute_event mismatch_store 0 1)) 0
               = map_tensor (\<lambda>v. v + event_epsilon) (floats mismatch_store 0)"
    by blast
  from ev a have o1: "floats (snd (compute_event event_store 0 1)) 1 = floats event_store 1"
    by blast
  have o2: "floats (snd (time_loss time_store 0 1)) 1 = floats time_store 1"
    using frame_of_the_routines [where h = time_store and prediction = 0 and event_time = 1] a
    by blast
  have o3: "snd (softplus softplus_store 0 1) = softplus_store"
    using frame_of_the_routines [where h = softplus_store and x = 0 and beta = 1]
    by blast
  from a b c d e f w2 w0 s2 n r o1 o2 o3 show ?thesis
    by (intro conjI) (elim conjE, assumption)+
qed

end
